theory Spec2Isabelle
  imports Main "HOL-Library.Char_ord"
begin

section \<open>The model\<close>

text \<open>
  A shallow embedding of the Go package \<^verbatim>\<open>rbxfetch\<close>: the four stream filters
  (\<^verbatim>\<open>FilterURL\<close>, \<^verbatim>\<open>FilterFile\<close>, \<^verbatim>\<open>FilterZip\<close>, \<^verbatim>\<open>FilterIconScan\<close>) and the
  client method \<^verbatim>\<open>Live\<close>.  Go strings and byte slices are lists of \<^typ>\<open>char\<close>
  (a \<^typ>\<open>char\<close> is one byte).  Every function of the package is translated with its
  own name; what the package calls in the Go standard library or in the filter
  framework is either written out from that library's behaviour (and said so), or
  taken as a parameter of the model.
\<close>

subsection \<open>Errors\<close>

text \<open>
  Go error values.  \<open>EOF\<close> is \<^verbatim>\<open>io.EOF\<close>, \<open>Closed\<close> is the filter framework's
  closed-state marker \<^verbatim>\<open>iofl.Closed\<close>, \<open>NotInArchive name\<close> is the value of
  \<^verbatim>\<open>fmt.Errorf("%q not in archive", name)\<close>, \<open>DownloadStatus url status msg\<close> is the
  value of \<^verbatim>\<open>fmt.Errorf("download from %s: %w", url, statusError{status, msg})\<close>, and
  \<open>Err msg\<close> is any other error raised by the operating system, the network or a
  decoder, identified by its message.
\<close>

datatype error =
    EOF
  | Closed
  | NotInArchive string
  | DownloadStatus string int string
  | Err string

subsection \<open>Identifier substitution: \<^verbatim>\<open>expandGUID\<close> (url.go)\<close>

text \<open>
  \<^verbatim>\<open>expandGUID\<close> calls \<^verbatim>\<open>os.Expand\<close> of the Go standard library, which is written
  out here from its source (\<^verbatim>\<open>os/env.go\<close>): \<^verbatim>\<open>isShellSpecialVar\<close>, \<^verbatim>\<open>isAlphaNum\<close>,
  \<^verbatim>\<open>getShellName\<close> and \<^verbatim>\<open>Expand\<close>.
\<close>

definition isShellSpecialVar :: "char \<Rightarrow> bool" where
  "isShellSpecialVar c = (c \<in> set ''*#$@!?-0123456789'')"

definition isAlphaNum :: "char \<Rightarrow> bool" where
  "isAlphaNum c =
     (c = CHR ''_'' \<or> (CHR ''0'' \<le> c \<and> c \<le> CHR ''9'')
      \<or> (CHR ''a'' \<le> c \<and> c \<le> CHR ''z'') \<or> (CHR ''A'' \<le> c \<and> c \<le> CHR ''Z''))"

text \<open>
  \<^verbatim>\<open>getShellName(s)\<close> returns the name that begins \<open>s\<close> and the number of bytes it
  takes up.  \<^verbatim>\<open>Expand\<close> calls it on a non-empty string only (Go would panic on
  \<^verbatim>\<open>s[0]\<close> otherwise); the first equation is never reached.  In the brace case the
  loop \<^verbatim>\<open>for i := 1; i < len(s); i++\<close> looks for the first \<^verbatim>\<open>}\<close>: the name is what
  stands before it.
\<close>

fun getShellName :: "string \<Rightarrow> string \<times> nat" where
  "getShellName [] = ([], 0)"
| "getShellName (c # cs) =
     (if c = CHR ''{'' then
        (if length (c # cs) > 2 \<and> isShellSpecialVar (cs ! 0) \<and> cs ! 1 = CHR ''}''
         then ([cs ! 0], 3)
         else (let name = takeWhile (\<lambda>x. x \<noteq> CHR ''}'') cs in
               if length name = length cs then ([], 1)
               else if name = [] then ([], 2)
               else (name, length name + 2)))
      else if isShellSpecialVar c then ([c], 1)
      else (takeWhile isAlphaNum (c # cs), length (takeWhile isAlphaNum (c # cs))))"

text \<open>
  \<^verbatim>\<open>Expand(s, mapping)\<close>: the loop over \<open>j\<close> copies bytes until a \<^verbatim>\<open>$\<close> that is not
  the last byte; there it appends nothing (bad syntax, eaten), the \<^verbatim>\<open>$\<close> itself
  (no name follows) or \<open>mapping name\<close>, and goes on after the \<open>w\<close> bytes of the name.
\<close>

fun Expand :: "string \<Rightarrow> (string \<Rightarrow> string) \<Rightarrow> string" where
  "Expand [] mapping = []"
| "Expand (c # cs) mapping =
     (if c = CHR ''$'' \<and> cs \<noteq> [] then
        (case getShellName cs of (name, w) \<Rightarrow>
           (if name = [] \<and> w > 0 then []
            else if name = [] then [c]
            else mapping name) @ Expand (drop w cs) mapping)
      else c # Expand cs mapping)"

text \<open>
  \<^verbatim>\<open>expandGUID(s, guid)\<close>.  \<^verbatim>\<open>strings.ToLower\<close> is a parameter (its Unicode case
  tables are not modelled); \<open>asciiToLower\<close> is what it does on ASCII strings and is
  used to evaluate the model on concrete inputs.
\<close>

definition expandGUID :: "(string \<Rightarrow> string) \<Rightarrow> string \<Rightarrow> string \<Rightarrow> string" where
  "expandGUID ToLower s guid = Expand s (\<lambda>v. if ToLower v = ''guid'' then guid else [])"

definition asciiToLower :: "string \<Rightarrow> string" where
  "asciiToLower s =
     map (\<lambda>c. if CHR ''A'' \<le> c \<and> c \<le> CHR ''Z'' then char_of (of_char c + (32::nat)) else c) s"

subsection \<open>Results of a call\<close>

text \<open>
  A Go call returns, or it panics (a nil interface is dereferenced, an integer is
  divided by zero).  \<open>Panics\<close> makes the crash a value of the model.
\<close>

datatype 'a go = Returns 'a | Panics

subsection \<open>Streams below a filter\<close>

text \<open>
  An \<^verbatim>\<open>io.ReadCloser\<close> that a filter reads from (an open file, a response body, the
  member of an archive, or the filter before it in the chain) is abstracted to its
  behaviour: the bytes it will still deliver (\<open>pending\<close>, finitely many), the error
  that ends them (\<open>ending\<close>: \<^verbatim>\<open>io.EOF\<close> at a clean end), what its first \<^verbatim>\<open>Close\<close>
  returns (\<open>on_close\<close>), what \<^verbatim>\<open>Read\<close> and \<^verbatim>\<open>Close\<close> return once it is closed
  (\<open>read_after_close\<close>, \<open>close_after_close\<close>), and whether it also implements
  \<^verbatim>\<open>io.ReaderAt\<close> and \<^verbatim>\<open>io.Seeker\<close> (\<open>seekable\<close>).  \<open>source_Read n\<close> is \<^verbatim>\<open>Read(p)\<close> with
  \<^verbatim>\<open>len(p) = n\<close>: the bytes stored in \<^verbatim>\<open>p\<close> and the error.
\<close>

record source =
  pending :: string
  ending :: error
  closed :: bool
  on_close :: "error option"
  read_after_close :: error
  close_after_close :: "error option"
  seekable :: bool

definition source_Read :: "nat \<Rightarrow> source \<Rightarrow> (string \<times> error option) \<times> source" where
  "source_Read n s =
     (if closed s then (([], Some (read_after_close s)), s)
      else if n = 0 then (([], None), s)
      else if pending s = [] then (([], Some (ending s)), s)
      else ((take n (pending s), None), s\<lparr>pending := drop n (pending s)\<rparr>))"

definition source_Close :: "source \<Rightarrow> error option \<times> source" where
  "source_Close s =
     (if closed s then (close_after_close s, s) else (on_close s, s\<lparr>closed := True\<rparr>))"

text \<open>\<^verbatim>\<open>ioutil.ReadAll\<close>: everything up to the ending error; \<^verbatim>\<open>io.EOF\<close> is not an error.\<close>

definition ioutil_ReadAll :: "source \<Rightarrow> (string \<times> error option) \<times> source" where
  "ioutil_ReadAll s =
     (if closed s then (([], Some (read_after_close s)), s)
      else ((pending s, if ending s = EOF then None else Some (ending s)), s\<lparr>pending := []\<rparr>))"

text \<open>An \<^verbatim>\<open>*os.File\<close> opened for reading on a file with the given content.\<close>

definition os_File :: "string \<Rightarrow> source" where
  "os_File content =
     \<lparr>pending = content, ending = EOF, closed = False, on_close = None,
      read_after_close = Err ''file already closed'',
      close_after_close = Some (Err ''file already closed''), seekable = True\<rparr>"

subsection \<open>The environment of a fetch\<close>

text \<open>
  The fields of \<^verbatim>\<open>url.URL\<close> that matter, and of \<^verbatim>\<open>http.Response\<close> (\<open>RequestURL\<close> is
  \<^verbatim>\<open>resp.Request.URL.String()\<close>).
\<close>

record url_URL =
  Scheme :: string
  Host :: string
  Path :: string
  RawQuery :: string
  Fragment :: string

record response =
  StatusCode :: int
  Status :: string
  RequestURL :: string
  Body :: source

text \<open>
  What \<^verbatim>\<open>fetch\<close> calls outside the package, as parameters: the library functions
  \<^verbatim>\<open>strings.ToLower\<close>, \<^verbatim>\<open>url.Parse\<close>, \<^verbatim>\<open>os.TempDir\<close>, \<^verbatim>\<open>os.UserCacheDir\<close>,
  \<^verbatim>\<open>filepath.Join\<close>, \<^verbatim>\<open>os.MkdirAll\<close> and the HTTP client's \<^verbatim>\<open>Get\<close> (the answer to the
  \<open>k\<close>-th request of the run), and the faults of the operating system at the calls
  whose error the source inspects: opening a path, creating the temporary file,
  writing to it (\<open>write_fault = Some (k, e)\<close>: the write fails with \<open>e\<close> once \<open>k\<close>
  bytes are written), syncing it and renaming it.  \<open>nextRandom\<close> is the sequence of
  random name parts \<^verbatim>\<open>ioutil.TempFile\<close> tries.
\<close>

record env =
  strings_ToLower :: "string \<Rightarrow> string"
  url_Parse :: "string \<Rightarrow> error + url_URL"
  os_TempDir :: string
  os_UserCacheDir :: "error + string"
  filepath_Join :: "string \<Rightarrow> string \<Rightarrow> string"
  os_MkdirAll :: "string \<Rightarrow> error option"
  open_fault :: "string \<Rightarrow> error option"
  tempfile_fault :: "error option"
  nextRandom :: "string list"
  write_fault :: "(nat \<times> error) option"
  sync_fault :: "error option"
  rename_fault :: "error option"
  http_Get :: "nat \<Rightarrow> string \<Rightarrow> error + response"

text \<open>
  The state a fetch changes: the regular files by path, and the log of the URLs
  requested from the network.
\<close>

record world =
  files :: "string \<rightharpoonup> string"
  requests :: "string list"

definition os_Open :: "env \<Rightarrow> string \<Rightarrow> world \<Rightarrow> error + source" where
  "os_Open env name w =
     (case open_fault env name of
        Some e \<Rightarrow> Inl e
      | None \<Rightarrow>
          (case files w name of
             None \<Rightarrow> Inl (Err ''file does not exist'')
           | Some content \<Rightarrow> Inr (os_File content)))"

text \<open>
  \<^verbatim>\<open>os.Remove\<close>: the source discards its result everywhere, so it is modelled by its
  effect.
\<close>

definition os_Remove :: "string \<Rightarrow> world \<Rightarrow> world" where
  "os_Remove name w = w\<lparr>files := (files w)(name := None)\<rparr>"

definition os_Rename :: "env \<Rightarrow> string \<Rightarrow> string \<Rightarrow> world \<Rightarrow> error option \<times> world" where
  "os_Rename env oldpath newpath w =
     (case rename_fault env of
        Some e \<Rightarrow> (Some e, w)
      | None \<Rightarrow>
          (case files w oldpath of
             None \<Rightarrow> (Some (Err ''file does not exist''), w)
           | Some content \<Rightarrow>
               (None, w\<lparr>files := ((files w)(oldpath := None))(newpath \<mapsto> content)\<rparr>)))"

text \<open>
  \<^verbatim>\<open>ioutil.TempFile(dir, pattern)\<close> creates, exclusively (\<^verbatim>\<open>O_EXCL\<close>), an empty file
  named \<open>pattern\<close> followed by a random part: the first name tried that no file has.
\<close>

fun pick_fresh :: "(string \<rightharpoonup> string) \<Rightarrow> string list \<Rightarrow> string option" where
  "pick_fresh fs [] = None"
| "pick_fresh fs (name # names) = (if fs name = None then Some name else pick_fresh fs names)"

definition ioutil_TempFile ::
  "env \<Rightarrow> string \<Rightarrow> string \<Rightarrow> world \<Rightarrow> (error + string) \<times> world" where
  "ioutil_TempFile env dir pattern w =
     (case tempfile_fault env of
        Some e \<Rightarrow> (Inl e, w)
      | None \<Rightarrow>
          (case pick_fresh (files w)
                  (map (\<lambda>r. filepath_Join env dir (pattern @ r)) (nextRandom env)) of
             None \<Rightarrow> (Inl (Err ''file exists''), w)
           | Some name \<Rightarrow> (Inr name, w\<lparr>files := (files w)(name \<mapsto> [])\<rparr>)))"

text \<open>
  \<^verbatim>\<open>io.Copy(tempFile, rc)\<close>: the bytes of the body go to the file until the body ends
  or the write fails; what was written by then stays in the file.
\<close>

definition io_Copy :: "env \<Rightarrow> string \<Rightarrow> source \<Rightarrow> world \<Rightarrow> error option \<times> world" where
  "io_Copy env dst src w =
     (case fst (ioutil_ReadAll src) of (data, rerr) \<Rightarrow>
        (case write_fault env of
           Some (k, e) \<Rightarrow>
             (if k < length data then (Some e, w\<lparr>files := (files w)(dst \<mapsto> take k data)\<rparr>)
              else (rerr, w\<lparr>files := (files w)(dst \<mapsto> data)\<rparr>))
         | None \<Rightarrow> (rerr, w\<lparr>files := (files w)(dst \<mapsto> data)\<rparr>)))"

subsection \<open>FilterURL: \<^verbatim>\<open>download\<close> and \<^verbatim>\<open>fetch\<close> (url.go)\<close>

text \<open>\<^verbatim>\<open>CacheMode\<close> is a Go \<^verbatim>\<open>int\<close>; the four constants are \<^verbatim>\<open>iota\<close>.\<close>

type_synonym CacheMode = int

definition CacheNone :: CacheMode where "CacheNone = 0"
definition CacheTemp :: CacheMode where "CacheTemp = 1"
definition CachePerm :: CacheMode where "CachePerm = 2"
definition CacheCustom :: CacheMode where "CacheCustom = 3"

text \<open>
  The filter's fields; \<open>url_r = None\<close> is Go's \<^verbatim>\<open>f.r == nil\<close>, \<open>url_err = None\<close> is
  \<^verbatim>\<open>f.err == nil\<close>.  (The HTTP client of the filter is part of \<open>http_Get\<close>.)
\<close>

record FilterURL =
  url_URL :: string
  url_GUID :: string
  url_CacheMode :: CacheMode
  url_CacheLocation :: string
  url_r :: "source option"
  url_err :: "error option"

definition hasStatusError :: "response \<Rightarrow> error option" where
  "hasStatusError resp =
     (if StatusCode resp < 200 \<or> StatusCode resp \<ge> 300
      then Some (DownloadStatus (RequestURL resp) (StatusCode resp) (Status resp))
      else None)"

definition download :: "env \<Rightarrow> string \<Rightarrow> world \<Rightarrow> (error + source) \<times> world" where
  "download env u w =
     (let w' = w\<lparr>requests := requests w @ [u]\<rparr> in
      case http_Get env (length (requests w)) u of
        Inl e \<Rightarrow> (Inl e, w')
      | Inr resp \<Rightarrow>
          (case hasStatusError resp of
             Some e \<Rightarrow> (Inl e, w')
           | None \<Rightarrow> (Inr (Body resp), w')))"

definition cacheDirName :: string where
  "cacheDirName = ''roblox-fetch''"

text \<open>
  \<^verbatim>\<open>url.PathEscape\<close>, written out from the Go standard library (\<^verbatim>\<open>net/url\<close>:
  \<^verbatim>\<open>shouldEscape\<close> in the mode \<^verbatim>\<open>encodePathSegment\<close>, and \<^verbatim>\<open>escape\<close>): a byte that must
  be escaped becomes \<^verbatim>\<open>%\<close> and its two upper-case hexadecimal digits.
\<close>

definition upperhex :: string where
  "upperhex = ''0123456789ABCDEF''"

definition shouldEscape :: "char \<Rightarrow> bool" where
  "shouldEscape c =
     (if (CHR ''a'' \<le> c \<and> c \<le> CHR ''z'') \<or> (CHR ''A'' \<le> c \<and> c \<le> CHR ''Z'')
         \<or> (CHR ''0'' \<le> c \<and> c \<le> CHR ''9'') then False
      else if c \<in> set ''-_.~'' then False
      else if c \<in> set ''$&+,/:;=?@'' then
        c = CHR ''/'' \<or> c = CHR '';'' \<or> c = CHR '','' \<or> c = CHR ''?''
      else True)"

definition escape_byte :: "char \<Rightarrow> string" where
  "escape_byte c =
     (if shouldEscape c
      then [CHR ''%'', upperhex ! ((of_char c :: nat) div 16), upperhex ! ((of_char c :: nat) mod 16)]
      else [c])"

definition PathEscape :: "string \<Rightarrow> string" where
  "PathEscape s = concat (map escape_byte s)"

text \<open>
  The cache key of a resolved address: the name of its file in the cache directory,
  \<^verbatim>\<open>url.PathEscape(loc.Host+loc.Path)\<close>.
\<close>

definition cacheKey :: "url_URL \<Rightarrow> string" where
  "cacheKey loc = PathEscape (Host loc @ Path loc)"

text \<open>
  The \<^verbatim>\<open>switch f.CacheMode\<close> of \<^verbatim>\<open>fetch\<close>: the cache directory, or \<open>None\<close> for the
  \<^verbatim>\<open>default\<close> branch (\<^verbatim>\<open>goto direct\<close>).
\<close>

definition cacheDir_of :: "env \<Rightarrow> FilterURL \<Rightarrow> string option" where
  "cacheDir_of env f =
     (if url_CacheMode f = CacheTemp then Some (filepath_Join env (os_TempDir env) cacheDirName)
      else if url_CacheMode f = CachePerm then
        Some (filepath_Join env
               (case os_UserCacheDir env of Inl _ \<Rightarrow> os_TempDir env | Inr dir \<Rightarrow> dir)
               cacheDirName)
      else if url_CacheMode f = CacheCustom then Some (url_CacheLocation f)
      else None)"

text \<open>
  The part of \<^verbatim>\<open>fetch\<close> from the label \<^verbatim>\<open>tryCache\<close> on; the Boolean is the variable
  \<^verbatim>\<open>downloaded\<close>.  Leaving the \<^verbatim>\<open>if\<close> blocks reaches the label \<^verbatim>\<open>direct\<close>, which
  returns \<^verbatim>\<open>f.download(u)\<close>.
\<close>

function tryCache ::
  "env \<Rightarrow> string \<Rightarrow> string \<Rightarrow> string \<Rightarrow> bool \<Rightarrow> world \<Rightarrow> (error + source) \<times> world" where
  "tryCache env u cacheDir cachedFilePath True w =
     (case os_Open env cachedFilePath w of
        Inr cachedFile \<Rightarrow> (Inr cachedFile, w)
      | Inl _ \<Rightarrow> download env u w)"
| "tryCache env u cacheDir cachedFilePath False w =
     (case os_Open env cachedFilePath w of
        Inr cachedFile \<Rightarrow> (Inr cachedFile, w)
      | Inl _ \<Rightarrow>
          (case ioutil_TempFile env cacheDir ''temp'' w of
             (Inl _, w1) \<Rightarrow> download env u w1
           | (Inr tempName, w1) \<Rightarrow>
               (case download env u w1 of
                  (Inl e, w2) \<Rightarrow> (Inl e, os_Remove tempName w2)
                | (Inr rc, w2) \<Rightarrow>
                    (case io_Copy env tempName rc w2 of
                       (Some e, w3) \<Rightarrow> (Inl e, os_Remove tempName w3)
                     | (None, w3) \<Rightarrow>
                         (case sync_fault env of
                            Some e \<Rightarrow> (Inl e, os_Remove tempName w3)
                          | None \<Rightarrow>
                              (case os_Rename env tempName cachedFilePath w3 of
                                 (Some _, w4) \<Rightarrow> tryCache env u cacheDir tempName True w4
                               | (None, w4) \<Rightarrow>
                                   tryCache env u cacheDir cachedFilePath True w4))))))"
  by pat_completeness auto
termination
  by (relation "measure (\<lambda>(env, u, cacheDir, cachedFilePath, downloaded, w).
                   if downloaded then 0 else 1)") auto

definition fetch :: "env \<Rightarrow> FilterURL \<Rightarrow> world \<Rightarrow> (error + source) \<times> world" where
  "fetch env f w =
     (let u = expandGUID (strings_ToLower env) (url_URL f) (url_GUID f) in
      case url_Parse env u of
        Inl e \<Rightarrow> (Inl e, w)
      | Inr loc \<Rightarrow>
          (case cacheDir_of env f of
             None \<Rightarrow> download env u w
           | Some cacheDir \<Rightarrow>
               (case os_MkdirAll env cacheDir of
                  Some e \<Rightarrow> (Inl e, w)
                | None \<Rightarrow>
                    tryCache env u cacheDir
                      (filepath_Join env cacheDir (PathEscape (Host loc @ Path loc))) False w)))"

subsection \<open>FilterURL: Close and Read (url.go)\<close>

text \<open>
  \<^verbatim>\<open>Close\<close> returns the recorded error if there is one; otherwise it closes \<^verbatim>\<open>f.r\<close>, and records
  the closed-state marker \<^verbatim>\<open>iofl.Closed\<close> when that succeeds and the failure when it does not. The source
  dereferences \<^verbatim>\<open>f.r\<close> without a test, so a filter that has never read (field nil) panics.

  \<^verbatim>\<open>Read\<close> returns the recorded error if there is one, returns \<^verbatim>\<open>(0, nil)\<close> for an empty buffer, runs
  \<^verbatim>\<open>fetch\<close> on the first call that reaches it and records a failure of \<^verbatim>\<open>fetch\<close>; its last line is
  \<^verbatim>\<open>return f.r.Read(p)\<close>, whose result is passed on as it is, without being recorded. The second argument is
  the length of the caller's buffer.
\<close>

definition FilterURL_Close :: "FilterURL \<Rightarrow> error option go \<times> FilterURL" where
  "FilterURL_Close f =
     (case url_err f of
        Some e \<Rightarrow> (Returns (Some e), f)
      | None \<Rightarrow>
          (case url_r f of
             None \<Rightarrow> (Panics, f)
           | Some s \<Rightarrow>
               (case source_Close s of
                  (None, s') \<Rightarrow> (Returns None, f\<lparr>url_r := Some s', url_err := Some Closed\<rparr>)
                | (Some e, s') \<Rightarrow> (Returns (Some e), f\<lparr>url_r := Some s', url_err := Some e\<rparr>))))"

definition FilterURL_Read ::
  "env \<Rightarrow> nat \<Rightarrow> FilterURL \<times> world \<Rightarrow> (string \<times> error option) go \<times> (FilterURL \<times> world)" where
  "FilterURL_Read env n fw =
     (case fw of (f, w) \<Rightarrow>
        (case url_err f of
           Some e \<Rightarrow> (Returns ([], Some e), (f, w))
         | None \<Rightarrow>
             if n = 0 then (Returns ([], None), (f, w))
             else
               (case url_r f of
                  Some s \<Rightarrow>
                    (case source_Read n s of
                       (res, s') \<Rightarrow> (Returns res, (f\<lparr>url_r := Some s'\<rparr>, w)))
                | None \<Rightarrow>
                    (case fetch env f w of
                       (Inl e, w') \<Rightarrow> (Returns ([], Some e), (f\<lparr>url_err := Some e\<rparr>, w'))
                     | (Inr s, w') \<Rightarrow>
                         (case source_Read n s of
                            (res, s') \<Rightarrow> (Returns res, (f\<lparr>url_r := Some s'\<rparr>, w')))))))"

subsection \<open>FilterFile (file.go)\<close>

text \<open>
  The file filter has the same shape: \<^verbatim>\<open>Close\<close> is the one of FilterURL, and \<^verbatim>\<open>Read\<close> opens the file at the
  expanded path on the first call that reaches it, a failure of \<^verbatim>\<open>os.Open\<close> being recorded.
\<close>

record FilterFile =
  file_Path :: string
  file_GUID :: string
  file_r :: "source option"
  file_err :: "error option"

definition FilterFile_Close :: "FilterFile \<Rightarrow> error option go \<times> FilterFile" where
  "FilterFile_Close f =
     (case file_err f of
        Some e \<Rightarrow> (Returns (Some e), f)
      | None \<Rightarrow>
          (case file_r f of
             None \<Rightarrow> (Panics, f)
           | Some s \<Rightarrow>
               (case source_Close s of
                  (None, s') \<Rightarrow> (Returns None, f\<lparr>file_r := Some s', file_err := Some Closed\<rparr>)
                | (Some e, s') \<Rightarrow> (Returns (Some e), f\<lparr>file_r := Some s', file_err := Some e\<rparr>))))"

definition FilterFile_Read ::
  "env \<Rightarrow> nat \<Rightarrow> FilterFile \<times> world \<Rightarrow> (string \<times> error option) go \<times> (FilterFile \<times> world)" where
  "FilterFile_Read env n fw =
     (case fw of (f, w) \<Rightarrow>
        (case file_err f of
           Some e \<Rightarrow> (Returns ([], Some e), (f, w))
         | None \<Rightarrow>
             if n = 0 then (Returns ([], None), (f, w))
             else
               (case file_r f of
                  Some s \<Rightarrow>
                    (case source_Read n s of
                       (res, s') \<Rightarrow> (Returns res, (f\<lparr>file_r := Some s'\<rparr>, w)))
                | None \<Rightarrow>
                    (case os_Open env (expandGUID (strings_ToLower env) (file_Path f) (file_GUID f)) w of
                       Inl e \<Rightarrow> (Returns ([], Some e), (f\<lparr>file_err := Some e\<rparr>, w))
                     | Inr s \<Rightarrow>
                         (case source_Read n s of
                            (res, s') \<Rightarrow> (Returns res, (f\<lparr>file_r := Some s'\<rparr>, w)))))))"

subsection \<open>FilterZip (zip.go)\<close>

text \<open>
  \<^verbatim>\<open>zip.NewReader\<close> of the Go standard library is a parameter of the model
  (\<open>zip_NewReader\<close>): from the bytes of the container it gives an error or the
  member directory \<^verbatim>\<open>zr.File\<close>, in its order.  A member has its \<^verbatim>\<open>Name\<close> and what
  \<^verbatim>\<open>Open()\<close> gives for it: an error or the stream of its decompressed bytes.
\<close>

record zfile =
  Name :: string
  Opened :: "error + source"

text \<open>
  \<^verbatim>\<open>wrapZipCloser\<close>: \<open>zf\<close> is the opened member; \<open>zc\<close> is the container's closer,
  either the filter's own upstream \<^verbatim>\<open>f.r\<close> (\<open>ZcUpstream\<close>: the same object, so its state
  stays in \<open>zip_r\<close>) or the \<^verbatim>\<open>nopCloser\<close> around the bytes read into memory (\<open>ZcNop\<close>).
\<close>

datatype zcloser = ZcUpstream | ZcNop

record wrapZipCloser =
  zc :: zcloser
  zf :: source

text \<open>
  The argument of \<^verbatim>\<open>unzip\<close>: the upstream itself when it is a \<^verbatim>\<open>readAtSeekCloser\<close>,
  or a \<^verbatim>\<open>bytes.Reader\<close>.  \<^verbatim>\<open>Seek(0, io.SeekEnd)\<close> gives the size, or fails on a closed
  upstream.
\<close>

datatype readAtSeekCloser = OfUpstream source | OfBytes string

definition rasc_Seek :: "readAtSeekCloser \<Rightarrow> error + nat" where
  "rasc_Seek rc =
     (case rc of
        OfBytes b \<Rightarrow> Inr (length b)
      | OfUpstream s \<Rightarrow> if closed s then Inl (read_after_close s) else Inr (length (pending s)))"

definition rasc_bytes :: "readAtSeekCloser \<Rightarrow> string" where
  "rasc_bytes rc = (case rc of OfBytes b \<Rightarrow> b | OfUpstream s \<Rightarrow> pending s)"

record FilterZip =
  zip_File :: string
  zip_r :: "source option"
  zip_zr :: "wrapZipCloser option"
  zip_err :: "error option"

text \<open>The loop \<^verbatim>\<open>for _, zf := range zr.File\<close> of \<^verbatim>\<open>unzip\<close>, with its \<^verbatim>\<open>continue\<close> and \<^verbatim>\<open>break\<close>.\<close>

fun find_zfile :: "zfile list \<Rightarrow> string \<Rightarrow> zfile option" where
  "find_zfile [] filename = None"
| "find_zfile (z # zs) filename =
     (if Name z \<noteq> filename then find_zfile zs filename else Some z)"

definition unzip ::
  "(string \<Rightarrow> error + zfile list) \<Rightarrow> readAtSeekCloser \<Rightarrow> string \<Rightarrow> error + wrapZipCloser" where
  "unzip zip_NewReader rc filename =
     (case rasc_Seek rc of
        Inl e \<Rightarrow> Inl e
      | Inr sz \<Rightarrow>
          (case zip_NewReader (take sz (rasc_bytes rc)) of
             Inl e \<Rightarrow> Inl e
           | Inr zfiles \<Rightarrow>
               (case find_zfile zfiles filename of
                  None \<Rightarrow> Inl (NotInArchive filename)
                | Some zfile \<Rightarrow>
                    (case Opened zfile of
                       Inl e \<Rightarrow> Inl e
                     | Inr member \<Rightarrow>
                         Inr \<lparr>zc = (case rc of OfUpstream _ \<Rightarrow> ZcUpstream | OfBytes _ \<Rightarrow> ZcNop),
                              zf = member\<rparr>))))"

text \<open>
  \<^verbatim>\<open>wrapZipCloser.Close\<close>: both are closed, the member first; the member's error
  wins.  The second argument is the filter's upstream, which \<open>ZcUpstream\<close> closes.
\<close>

definition wrapZipCloser_Close ::
  "wrapZipCloser \<Rightarrow> source option \<Rightarrow> error option go \<times> (wrapZipCloser \<times> source option)" where
  "wrapZipCloser_Close zr upstream =
     (case source_Close (zf zr) of (err0, zf') \<Rightarrow>
        (case zc zr of
           ZcNop \<Rightarrow> (Returns err0, (zr\<lparr>zf := zf'\<rparr>, upstream))
         | ZcUpstream \<Rightarrow>
             (case upstream of
                None \<Rightarrow> (Panics, (zr\<lparr>zf := zf'\<rparr>, upstream))
              | Some s \<Rightarrow>
                  (case source_Close s of (err1, s') \<Rightarrow>
                     (Returns (case err0 of Some e \<Rightarrow> Some e | None \<Rightarrow> err1),
                      (zr\<lparr>zf := zf'\<rparr>, Some s'))))))"

definition FilterZip_Close :: "FilterZip \<Rightarrow> error option go \<times> FilterZip" where
  "FilterZip_Close f =
     (case zip_err f of
        Some e \<Rightarrow> (Returns (Some e), f)
      | None \<Rightarrow>
          (case zip_zr f of
             Some zr \<Rightarrow>
               (case wrapZipCloser_Close zr (zip_r f) of
                  (Panics, _) \<Rightarrow> (Panics, f)
                | (Returns None, (zr', r')) \<Rightarrow>
                    (Returns None, f\<lparr>zip_zr := Some zr', zip_r := r', zip_err := Some Closed\<rparr>)
                | (Returns (Some e), (zr', r')) \<Rightarrow>
                    (Returns (Some e), f\<lparr>zip_zr := Some zr', zip_r := r', zip_err := Some e\<rparr>))
           | None \<Rightarrow>
               (case zip_r f of
                  None \<Rightarrow> (Panics, f)
                | Some s \<Rightarrow>
                    (case source_Close s of
                       (None, s') \<Rightarrow>
                         (Returns None, f\<lparr>zip_r := Some s', zip_err := Some Closed\<rparr>)
                     | (Some e, s') \<Rightarrow>
                         (Returns (Some e), f\<lparr>zip_r := Some s', zip_err := Some e\<rparr>)))))"

text \<open>The last line of \<^verbatim>\<open>Read\<close>, \<^verbatim>\<open>return f.zr.Read(p)\<close>, which reads the member.\<close>

definition zr_Read ::
  "nat \<Rightarrow> wrapZipCloser \<Rightarrow> FilterZip \<Rightarrow> (string \<times> error option) go \<times> FilterZip" where
  "zr_Read n zr f =
     (case source_Read n (zf zr) of
        (res, zf') \<Rightarrow> (Returns res, f\<lparr>zip_zr := Some (zr\<lparr>zf := zf'\<rparr>)\<rparr>))"

text \<open>
  \<^verbatim>\<open>FilterZip.Read\<close>.  The type switch on \<^verbatim>\<open>f.r\<close> is the test \<open>seekable\<close>; in the
  \<^verbatim>\<open>default\<close> branch the upstream is read in full and closed.
\<close>

definition FilterZip_Read ::
  "(string \<Rightarrow> error + zfile list) \<Rightarrow> nat \<Rightarrow> FilterZip \<Rightarrow>
   (string \<times> error option) go \<times> FilterZip" where
  "FilterZip_Read zip_NewReader n f =
     (case zip_err f of
        Some e \<Rightarrow> (Returns ([], Some e), f)
      | None \<Rightarrow>
          if n = 0 then (Returns ([], None), f)
          else
            (case zip_zr f of
               Some zr \<Rightarrow> zr_Read n zr f
             | None \<Rightarrow>
                 (case zip_r f of
                    None \<Rightarrow> (Panics, f)
                  | Some s \<Rightarrow>
                      if seekable s then
                        (case unzip zip_NewReader (OfUpstream s) (zip_File f) of
                           Inl e \<Rightarrow>
                             (Returns ([], Some e),
                              f\<lparr>zip_err := Some e, zip_r := Some (snd (source_Close s))\<rparr>)
                         | Inr zr \<Rightarrow> zr_Read n zr f)
                      else
                        (case ioutil_ReadAll s of ((b, rerr), r1) \<Rightarrow>
                           (case source_Close r1 of (_, r2) \<Rightarrow>
                              (case rerr of
                                 Some e \<Rightarrow>
                                   (Returns ([], Some e), f\<lparr>zip_err := Some e, zip_r := Some r2\<rparr>)
                               | None \<Rightarrow>
                                   (case unzip zip_NewReader (OfBytes b) (zip_File f) of
                                      Inl e \<Rightarrow>
                                        (Returns ([], Some e),
                                         f\<lparr>zip_err := Some e,
                                           zip_r := Some (snd (source_Close r2))\<rparr>)
                                    | Inr zr \<Rightarrow> zr_Read n zr (f\<lparr>zip_r := Some r2\<rparr>))))))))"

subsection \<open>FilterIconScan (iconscan.go)\<close>

text \<open>
  The PNG decoder is not part of the repository. What the scan uses of it is the number of bytes
  it takes from the reader and, when it succeeds, the bounds of the image; both are given by a
  parameter that parses the chunks after the eight bytes of the signature. \<^verbatim>\<open>png_Decode\<close> is the
  decoder run on the bytes from a signature on: it takes the signature and what the chunk parser
  takes, never more than there is. The scan only decodes where \<^verbatim>\<open>readBytes\<close> has just seen the
  signature, so the test of the signature by the decoder itself always succeeds.
\<close>

record image =
  Dx :: int
  Dy :: int
  Pix :: string

type_synonym chunk_parser = "string \<Rightarrow> nat \<times> (error + image)"

definition png_Decode :: "chunk_parser \<Rightarrow> string \<Rightarrow> nat \<times> (error + image)" where
  "png_Decode chunks rest =
     (case chunks (drop 8 rest) of (n, res) \<Rightarrow> (min (length rest) (8 + n), res))"

record FilterIconScan =
  scan_Size :: int
  scan_r :: "source option"
  scan_buf :: string
  scan_err :: "error option"

definition FilterIconScan_Close :: "FilterIconScan \<Rightarrow> error option go \<times> FilterIconScan" where
  "FilterIconScan_Close f =
     (case scan_err f of
        Some e \<Rightarrow> (Returns (Some e), f)
      | None \<Rightarrow>
          (case scan_r f of
             None \<Rightarrow> (Panics, f)
           | Some s \<Rightarrow>
               (case source_Close s of
                  (None, s') \<Rightarrow> (Returns None, f\<lparr>scan_r := Some s', scan_err := Some Closed\<rparr>)
                | (Some e, s') \<Rightarrow> (Returns (Some e), f\<lparr>scan_r := Some s', scan_err := Some e\<rparr>))))"

text \<open>
  \<^verbatim>\<open>readBytes\<close> on the bytes still to come from the reader: \<^verbatim>\<open>Peek\<close> of \<^verbatim>\<open>len(sep)\<close> fails when fewer bytes
  are left, with the error that ends the stream, and \<^verbatim>\<open>Discard(1)\<close> drops one byte. The result is what
  is left in front of the reader, beginning with the separator; \<^verbatim>\<open>None\<close> stands for the failure,
  whose error is the ending of the stream.
\<close>

function readBytes :: "string \<Rightarrow> string \<Rightarrow> string option" where
  "readBytes data sep =
     (if sep = [] then Some data
      else if length data < length sep then None
      else if take (length sep) data = sep then Some data
      else readBytes (drop 1 data) sep)"
  by pat_completeness auto
termination
proof (relation "measure (\<lambda>(data, sep). length data)")
  fix data sep :: string
  assume "sep \<noteq> []" "\<not> length data < length sep"
  then have "data \<noteq> []" by (cases data) auto
  then show "((drop 1 data, sep), (data, sep)) \<in> measure (\<lambda>(data, sep). length data)"
    by (cases data) auto
qed simp

declare readBytes.simps [simp del]

definition header :: string where
  "header = [CHR 0x89, CHR ''P'', CHR ''N'', CHR ''G'', CHR 0x0D, CHR 0x0A, CHR 0x1A, CHR 0x0A]"

lemma readBytes_length:
  "readBytes data sep = Some rest \<Longrightarrow> length rest \<le> length data \<and> length sep \<le> length rest"
proof (induction data sep rule: readBytes.induct)
  case (1 data sep)
  show ?case
  proof (cases "sep = [] \<or> length data < length sep \<or> take (length sep) data = sep")
    case True
    with "1.prems" show ?thesis
      by (subst (asm) readBytes.simps) (auto split: if_splits)
  next
    case False
    with "1.prems" have "readBytes (drop 1 data) sep = Some rest"
      by (subst (asm) readBytes.simps) (simp split: if_splits)
    with False "1.IH" show ?thesis by auto
  qed
qed

lemma png_Decode_consumes:
  "readBytes data header = Some rest \<Longrightarrow> png_Decode chunks rest = (n, res) \<Longrightarrow>
   length (drop n rest) < length data"
  by (drule readBytes_length) (auto simp: png_Decode_def header_def split: prod.splits)

text \<open>
  The loop of \<^verbatim>\<open>scan\<close>. It is left by \<^verbatim>\<open>break\<close> (with the buffer and the selection), by
  \<^verbatim>\<open>return\<close> of the error of \<^verbatim>\<open>readBytes\<close> (the upstream is closed by the caller of the loop, in
  \<^verbatim>\<open>scan\<close> below), or by the panic of the integer remainder \<^verbatim>\<open>Dx() % f.Size\<close> when \<^verbatim>\<open>f.Size\<close>
  is zero and the height matches. The buffer is reset before each decoding and filled through the
  \<^verbatim>\<open>io.TeeReader\<close> with every byte the decoder takes, whether or not the image is then selected;
  Go evaluates the three operands of \<^verbatim>\<open>||\<close> from left to right and stops at the first true one.
\<close>

datatype loop_exit = Break string image | Return error string | Crash

function scan_loop ::
  "chunk_parser \<Rightarrow> int \<Rightarrow> error \<Rightarrow> string \<Rightarrow> string \<Rightarrow> image option \<Rightarrow> loop_exit" where
  "scan_loop chunks Size fin data buf largest =
     (case readBytes data header of
        None \<Rightarrow>
          (case largest of
             Some img \<Rightarrow> if fin = EOF then Break buf img else Return fin buf
           | None \<Rightarrow> Return fin buf)
      | Some rest \<Rightarrow>
          (case png_Decode chunks rest of (n, res) \<Rightarrow>
             (case res of
                Inl _ \<Rightarrow> scan_loop chunks Size fin (drop n rest) (take n rest) largest
              | Inr img \<Rightarrow>
                  if Dy img \<noteq> Size then
                    scan_loop chunks Size fin (drop n rest) (take n rest) largest
                  else if Size = 0 then Crash
                  else if Dx img mod Size \<noteq> 0 then
                    scan_loop chunks Size fin (drop n rest) (take n rest) largest
                  else
                    scan_loop chunks Size fin (drop n rest) (take n rest)
                      (case largest of
                         None \<Rightarrow> Some img
                       | Some l \<Rightarrow> if Dx img > Dx l then Some img else Some l))))"
  by pat_completeness auto

termination
  by (relation "measure (\<lambda>(chunks, Size, fin, data, buf, largest). length data)")
     (auto dest: png_Decode_consumes[OF _ sym])

declare scan_loop.simps [simp del]

text \<open>
  What a \<^verbatim>\<open>bufio.Reader\<close> over the upstream sees: all the bytes up to the error that ends it, or, for a
  closed upstream, nothing but its answer to a read after close. After the loop the upstream has
  been read to its end. \<^verbatim>\<open>scan\<close> closes the upstream on both exits and returns the result of
  \<^verbatim>\<open>f.r.Close()\<close> only after \<^verbatim>\<open>break\<close>.
\<close>

definition bufio_view :: "source \<Rightarrow> string \<times> error" where
  "bufio_view s = (if closed s then ([], read_after_close s) else (pending s, ending s))"

definition drained :: "source \<Rightarrow> source" where
  "drained s = (if closed s then s else s\<lparr>pending := []\<rparr>)"

definition scan :: "chunk_parser \<Rightarrow> FilterIconScan \<Rightarrow> error option go \<times> FilterIconScan" where
  "scan chunks f =
     (case scan_r f of
        None \<Rightarrow> (Panics, f)
      | Some s \<Rightarrow>
          (case bufio_view s of (data, fin) \<Rightarrow>
             (case scan_loop chunks (scan_Size f) fin data (scan_buf f) None of
                Crash \<Rightarrow> (Panics, f)
              | Return e buf \<Rightarrow>
                  (Returns (Some e),
                   f\<lparr>scan_buf := buf, scan_r := Some (snd (source_Close (drained s)))\<rparr>)
              | Break buf img \<Rightarrow>
                  (case source_Close (drained s) of
                     (cerr, s') \<Rightarrow> (Returns cerr, f\<lparr>scan_buf := buf, scan_r := Some s'\<rparr>)))))"

text \<open>
  \<^verbatim>\<open>bytes.Buffer.Read\<close>: an empty buffer answers \<^verbatim>\<open>io.EOF\<close>, except to an empty request.
  \<^verbatim>\<open>FilterIconScan.Read\<close> runs the scan whenever the buffer is empty, also after the image has been read out.
\<close>

definition buf_Read :: "nat \<Rightarrow> string \<Rightarrow> (string \<times> error option) \<times> string" where
  "buf_Read n buf =
     (if buf = [] then (if n = 0 then (([], None), buf) else (([], Some EOF), buf))
      else ((take n buf, None), drop n buf))"

definition FilterIconScan_Read ::
  "chunk_parser \<Rightarrow> nat \<Rightarrow> FilterIconScan \<Rightarrow> (string \<times> error option) go \<times> FilterIconScan" where
  "FilterIconScan_Read chunks n f =
     (case scan_err f of
        Some e \<Rightarrow> (Returns ([], Some e), f)
      | None \<Rightarrow>
          if scan_buf f = [] then
            (case scan chunks f of
               (Panics, f') \<Rightarrow> (Panics, f')
             | (Returns (Some e), f') \<Rightarrow> (Returns ([], Some e), f'\<lparr>scan_err := Some e\<rparr>)
             | (Returns None, f') \<Rightarrow>
                 (case buf_Read n (scan_buf f') of
                    (res, b') \<Rightarrow> (Returns res, f'\<lparr>scan_buf := b'\<rparr>)))
          else
            (case buf_Read n (scan_buf f) of
               (res, b') \<Rightarrow> (Returns res, f\<lparr>scan_buf := b'\<rparr>)))"

subsection \<open>Client.Live\<close>

text \<open>
  The chains are resolved and run by the library \<^verbatim>\<open>iofl\<close>, which is not part of the
  repository: resolving a chain by name, configuring the filters of a chain, decoding the JSON
  content and closing the chain are parameters, over a state \<^verbatim>\<open>'w\<close> of whatever they act on.
  \<^verbatim>\<open>Live_loop\<close> is the loop of \<^verbatim>\<open>Client.Live\<close>: a chain that does not resolve returns nil
  and the error; a resolved chain is decoded and then closed (the result of \<^verbatim>\<open>f.Close()\<close> is
  dropped), and a failure of the decoding returns nil and the error; the identifiers are
  appended in the order of the chains.
\<close>

record ('f, 'w) framework =
  chainSet_Resolve :: "string \<Rightarrow> 'w \<Rightarrow> (error + 'f) \<times> 'w"
  applyClient :: "'f \<Rightarrow> CacheMode \<Rightarrow> string \<Rightarrow> 'f"
  applyGUID :: "'f \<Rightarrow> string \<Rightarrow> 'f"
  json_Decode :: "'f \<Rightarrow> 'w \<Rightarrow> (error + string) \<times> 'w"
  filter_Close :: "'f \<Rightarrow> 'w \<Rightarrow> 'w"

record Client =
  client_CacheMode :: CacheMode
  client_CacheLocation :: string
  methods :: "string \<rightharpoonup> string list"

definition resolve ::
  "('f, 'w) framework \<Rightarrow> Client \<Rightarrow> string \<Rightarrow> string \<Rightarrow> 'w \<Rightarrow> (error + 'f) \<times> 'w" where
  "resolve lib client chain guid w =
     (case chainSet_Resolve lib chain w of
        (Inl err, w') \<Rightarrow> (Inl err, w')
      | (Inr f, w') \<Rightarrow>
          if guid = [] then (Inr (applyClient lib f CacheNone []), w')
          else
            (Inr (applyGUID lib
                    (applyClient lib f (client_CacheMode client) (client_CacheLocation client))
                    guid), w'))"

fun Live_loop ::
  "('f, 'w) framework \<Rightarrow> Client \<Rightarrow> string list \<Rightarrow> string list \<Rightarrow> 'w \<Rightarrow>
   (string list \<times> error option) \<times> 'w" where
  "Live_loop lib client [] guids w = ((guids, None), w)"
| "Live_loop lib client (chain # others) guids w =
     (case resolve lib client chain [] w of
        (Inl err, w1) \<Rightarrow> (([], Some err), w1)
      | (Inr f, w1) \<Rightarrow>
          (case json_Decode lib f w1 of
             (res, w2) \<Rightarrow>
               (case res of
                  Inl err \<Rightarrow> (([], Some err), filter_Close lib f w2)
                | Inr guid \<Rightarrow> Live_loop lib client others (guids @ [guid]) (filter_Close lib f w2))))"

definition Live :: "('f, 'w) framework \<Rightarrow> Client \<Rightarrow> 'w \<Rightarrow> (string list \<times> error option) \<times> 'w" where
  "Live lib client w =
     Live_loop lib client (case methods client ''Live'' of None \<Rightarrow> [] | Some l \<Rightarrow> l) [] w"

subsection \<open>Notions used in the statements and proofs\<close>

text \<open>
  A string is \<open>inert\<close> when \<^verbatim>\<open>os.Expand\<close> leaves it as it is: every \<^verbatim>\<open>$\<close> in it is
  its last byte or stands before a byte that starts no name.
\<close>

definition plain :: "char \<Rightarrow> bool" where
  "plain c = (c \<noteq> CHR ''{'' \<and> \<not> isShellSpecialVar c \<and> \<not> isAlphaNum c)"

fun inert :: "string \<Rightarrow> bool" where
  "inert [] = True"
| "inert (c # cs) = ((c = CHR ''$'' \<longrightarrow> cs = [] \<or> plain (hd cs)) \<and> inert cs)"

text \<open>
  For claims C1 and C4.  A miniature image format on which the scan is run, standing in for the
  PNG chunks: after the signature one byte of width, one of height (neither zero, as
  \<^verbatim>\<open>image/png\<close> refuses non-positive dimensions) and one of pixel data, which tells two
  images of the same size apart.
\<close>

definition mini_chunks :: chunk_parser where
  "mini_chunks bs =
     (case bs of
        w # h # p # _ \<Rightarrow>
          if w = CHR 0x00 \<or> h = CHR 0x00 then (2, Inl (Err ''png: invalid format: non-positive dimension''))
          else (3, Inr \<lparr>Dx = int (of_char w), Dy = int (of_char h), Pix = [p]\<rparr>)
      | _ \<Rightarrow> (length bs, Inl (Err ''unexpected EOF'')))"

definition mini_png :: "nat \<Rightarrow> nat \<Rightarrow> char \<Rightarrow> string" where
  "mini_png w h p = header @ [char_of w, char_of h, p]"

definition sheet_16_32_16 :: string where
  "sheet_16_32_16 =
     ''junk'' @ mini_png 16 16 CHR ''a'' @ ''..'' @ mini_png 32 16 CHR ''b'' @ mini_png 16 16 CHR ''c'' @ ''end''"

definition sheet_32_32 :: string where
  "sheet_32_32 = mini_png 32 16 CHR ''a'' @ mini_png 32 16 CHR ''b''"

text \<open>
  An upstream that answers as a filter of this package does once closed: with the
  closed-state marker.
\<close>

definition demo_upstream :: "string \<Rightarrow> source" where
  "demo_upstream data =
     \<lparr>pending = data, ending = EOF, closed = False, on_close = None,
      read_after_close = Closed, close_after_close = Some Closed, seekable = False\<rparr>"

text \<open>
  For claim C7.  One round of the loop of \<^verbatim>\<open>Live\<close> on its own: the chain is resolved,
  its content decoded, the filter closed; the outcome is the failure of the
  resolution, the failure of the decoding, or the identifier.  \<open>succeed_all\<close> runs the
  rounds in order and is \<open>Some\<close> when every one succeeds: the identifiers in order
  and the world afterwards.
\<close>

definition attempt ::
  "('f, 'w) framework \<Rightarrow> Client \<Rightarrow> string \<Rightarrow> 'w \<Rightarrow> (error + string) \<times> 'w" where
  "attempt lib client chain w =
     (case resolve lib client chain [] w of
        (Inl err, w1) \<Rightarrow> (Inl err, w1)
      | (Inr f, w1) \<Rightarrow>
          (case json_Decode lib f w1 of (res, w2) \<Rightarrow> (res, filter_Close lib f w2)))"

fun succeed_all ::
  "('f, 'w) framework \<Rightarrow> Client \<Rightarrow> string list \<Rightarrow> 'w \<Rightarrow> (string list \<times> 'w) option" where
  "succeed_all lib client [] w = Some ([], w)"
| "succeed_all lib client (chain # others) w =
     (case attempt lib client chain w of
        (Inl _, _) \<Rightarrow> None
      | (Inr guid, w1) \<Rightarrow>
          (case succeed_all lib client others w1 of
             None \<Rightarrow> None
           | Some (guids, w2) \<Rightarrow> Some (guid # guids, w2)))"

text \<open>
  A small framework on which the model is run: every chain resolves to a filter
  carrying its name; decoding fails for the chain \<open>broken\<close>; the world is the log of
  what was done.
\<close>

definition demo_framework :: "string \<Rightarrow> (string, string list) framework" where
  "demo_framework broken =
     \<lparr>chainSet_Resolve = (\<lambda>chain w. (Inr chain, w @ [''resolve '' @ chain])),
      applyClient = (\<lambda>f mode loc. f),
      applyGUID = (\<lambda>f guid. f),
      json_Decode = (\<lambda>f w. (if f = broken then Inl (Err (''cannot decode '' @ f))
                              else Inr (''version-of-'' @ f), w @ [''decode '' @ f])),
      filter_Close = (\<lambda>f w. w @ [''close '' @ f])\<rparr>"

definition demo_client :: Client where
  "demo_client =
     \<lparr>client_CacheMode = CacheTemp, client_CacheLocation = [],
      methods = [''Live'' \<mapsto> [''Live64'', ''Live'']]\<rparr>"

text \<open>
  For claims C6, C8 and C10.  A caller's operations on a filter, \<^verbatim>\<open>Close()\<close> and
  \<^verbatim>\<open>Read(p)\<close> with \<^verbatim>\<open>len(p) = n\<close>, run one after the other from a state, with the
  answers they get.  \<open>latched e\<close> is the answer of a filter whose \<^verbatim>\<open>err\<close> field holds
  \<open>e\<close>: \<^verbatim>\<open>Close\<close> returns \<open>e\<close>, \<^verbatim>\<open>Read\<close> returns no bytes and \<open>e\<close>.  For the URL and file
  filters the state is the filter with the world, which \<^verbatim>\<open>Close\<close> leaves alone.
\<close>

datatype op = OpClose | OpRead nat

datatype answer = Closing "error option go" | Reading "(string \<times> error option) go"

fun run_ops ::
  "('s \<Rightarrow> error option go \<times> 's) \<Rightarrow> (nat \<Rightarrow> 's \<Rightarrow> (string \<times> error option) go \<times> 's) \<Rightarrow>
   op list \<Rightarrow> 's \<Rightarrow> answer list" where
  "run_ops cl rd [] s = []"
| "run_ops cl rd (OpClose # ops) s = (case cl s of (a, s') \<Rightarrow> Closing a # run_ops cl rd ops s')"
| "run_ops cl rd (OpRead n # ops) s = (case rd n s of (a, s') \<Rightarrow> Reading a # run_ops cl rd ops s')"

fun latched :: "error \<Rightarrow> op \<Rightarrow> answer" where
  "latched e OpClose = Closing (Returns (Some e))"
| "latched e (OpRead n) = Reading (Returns ([], Some e))"

definition FilterURL_Close_in ::
  "FilterURL \<times> world \<Rightarrow> error option go \<times> (FilterURL \<times> world)" where
  "FilterURL_Close_in fw = (case FilterURL_Close (fst fw) of (a, f') \<Rightarrow> (a, (f', snd fw)))"

definition FilterFile_Close_in ::
  "FilterFile \<times> world \<Rightarrow> error option go \<times> (FilterFile \<times> world)" where
  "FilterFile_Close_in fw = (case FilterFile_Close (fst fw) of (a, f') \<Rightarrow> (a, (f', snd fw)))"

text \<open>
  Two containers on which the model is run, given by their member directories (the
  first is the one of the specification's test: \<^verbatim>\<open>a.txt\<close> holds \<^verbatim>\<open>hello\<close>, \<^verbatim>\<open>b.txt\<close>
  holds \<^verbatim>\<open>world\<close>), and a zip filter over a container.
\<close>

definition demo_NewReader :: "string \<Rightarrow> error + zfile list" where
  "demo_NewReader b =
     (if b = ''PK:a.txt,b.txt'' then
        Inr [\<lparr>Name = ''a.txt'', Opened = Inr (demo_upstream ''hello'')\<rparr>,
             \<lparr>Name = ''b.txt'', Opened = Inr (demo_upstream ''world'')\<rparr>]
      else if b = ''PK:x.txt'' then
        Inr [\<lparr>Name = ''x.txt'', Opened = Inr (demo_upstream ''other'')\<rparr>]
      else Inl (Err ''zip: not a valid zip file''))"

definition demo_zip :: "string \<Rightarrow> string \<Rightarrow> FilterZip" where
  "demo_zip container member =
     \<lparr>zip_File = member, zip_r = Some (demo_upstream container), zip_zr = None, zip_err = None\<rparr>"

text \<open>
  For claim C9.  An address is \<open>rooted\<close> when its host holds no \<^verbatim>\<open>/\<close> and its path is
  empty or starts with \<^verbatim>\<open>/\<close>, as \<^verbatim>\<open>url.Parse\<close> gives them for an address with an
  authority (\<^verbatim>\<open>scheme://host/path\<close>).
\<close>

definition rooted :: "url_URL \<Rightarrow> bool" where
  "rooted loc = (CHR ''/'' \<notin> set (Host loc) \<and> (Path loc = [] \<or> hd (Path loc) = CHR ''/''))"

definition demo_loc :: "string \<Rightarrow> string \<Rightarrow> string \<Rightarrow> url_URL" where
  "demo_loc scheme path query =
     \<lparr>Scheme = scheme, Host = ''setup.rbxcdn.com'', Path = path, RawQuery = query, Fragment = []\<rparr>"

text \<open>
  An environment on which \<^verbatim>\<open>fetch\<close> is run: a parser for addresses of the shape
  \<^verbatim>\<open>scheme://host/path?query\<close>, a file system without faults, an origin that answers
  200 with the body \<^verbatim>\<open>hello\<close>; and variants of it with one fault each.
\<close>

definition demo_Parse :: "string \<Rightarrow> error + url_URL" where
  "demo_Parse u =
     (let scheme = takeWhile (\<lambda>c. c \<noteq> CHR '':'') u;
          rest = drop (length scheme + 3) u;
          host = takeWhile (\<lambda>c. c \<noteq> CHR ''/'' \<and> c \<noteq> CHR ''?'') rest;
          tail = drop (length host) rest
      in if take 3 (drop (length scheme) u) = ''://''
         then Inr \<lparr>Scheme = scheme, Host = host,
                   Path = takeWhile (\<lambda>c. c \<noteq> CHR ''?'') tail,
                   RawQuery = drop 1 (dropWhile (\<lambda>c. c \<noteq> CHR ''?'') tail),
                   Fragment = []\<rparr>
         else Inl (Err ''parse: missing protocol scheme''))"

definition demo_body :: "string \<Rightarrow> error \<Rightarrow> source" where
  "demo_body data fin =
     \<lparr>pending = data, ending = fin, closed = False, on_close = None,
      read_after_close = Err ''http: read on closed response body'',
      close_after_close = None, seekable = False\<rparr>"

definition demo_env :: env where
  "demo_env =
     \<lparr>strings_ToLower = asciiToLower,
      url_Parse = demo_Parse,
      os_TempDir = ''/tmp'',
      os_UserCacheDir = Inr ''/home/user/.cache'',
      filepath_Join = (\<lambda>dir name. dir @ ''/'' @ name),
      os_MkdirAll = (\<lambda>dir. None),
      open_fault = (\<lambda>name. None),
      tempfile_fault = None,
      nextRandom = [''1'', ''2''],
      write_fault = None,
      sync_fault = None,
      rename_fault = None,
      http_Get = (\<lambda>k u. Inr \<lparr>StatusCode = 200, Status = ''200 OK'', RequestURL = u,
                                 Body = demo_body ''hello'' EOF\<rparr>)\<rparr>"

definition demo_url :: "CacheMode \<Rightarrow> FilterURL" where
  "demo_url mode =
     \<lparr>url_URL = ''https://setup.rbxcdn.com/$GUID-API-Dump.json'', url_GUID = ''version-abc'',
      url_CacheMode = mode, url_CacheLocation = [], url_r = None, url_err = None\<rparr>"

definition empty_world :: world where
  "empty_world = \<lparr>files = Map.empty, requests = []\<rparr>"

definition demo_env_cut :: env where
  "demo_env_cut =
     demo_env\<lparr>http_Get := (\<lambda>k u. Inr \<lparr>StatusCode = 200, Status = ''200 OK'', RequestURL = u,
                                Body = demo_body ''hel'' (Err ''unexpected EOF'')\<rparr>)\<rparr>"

definition demo_env_mkdir :: env where
  "demo_env_mkdir = demo_env\<lparr>os_MkdirAll := (\<lambda>dir. Some (Err ''read-only file system''))\<rparr>"

definition demo_env_sync :: env where
  "demo_env_sync = demo_env\<lparr>sync_fault := Some (Err ''input/output error'')\<rparr>"



text \<open>
  An upstream that, once closed, answers \<^verbatim>\<open>Read\<close> with \<^verbatim>\<open>io.EOF\<close>, as
  \<^verbatim>\<open>ioutil.NopCloser\<close> around an exhausted \<^verbatim>\<open>bytes.Reader\<close> does; a scan filter of size
  16 over an upstream; a file filter.
\<close>

definition demo_nop_upstream :: "string \<Rightarrow> source" where
  "demo_nop_upstream data =
     \<lparr>pending = data, ending = EOF, closed = False, on_close = None,
      read_after_close = EOF, close_after_close = None, seekable = False\<rparr>"

definition demo_scan :: "source \<Rightarrow> FilterIconScan" where
  "demo_scan upstream = \<lparr>scan_Size = 16, scan_r = Some upstream, scan_buf = [], scan_err = None\<rparr>"


section \<open>Properties\<close>

subsection \<open>A filter in its error state\<close>

lemma run_ops_fixed:
  assumes "cl s = (Returns (Some e), s)" and "\<And>n. rd n s = (Returns ([], Some e), s)"
  shows "run_ops cl rd ops s = map (latched e) ops"
proof (induction ops)
  case Nil
  show ?case by simp
next
  case (Cons o1 ops)
  with assms show ?case by (cases o1) simp_all
qed



lemma zip_latched:
  "zip_err f = Some e \<Longrightarrow>
   run_ops FilterZip_Close (FilterZip_Read nr) ops f = map (latched e) ops"
  by (rule run_ops_fixed) (simp_all add: FilterZip_Close_def FilterZip_Read_def)

lemma scan_latched:
  "scan_err f = Some e \<Longrightarrow>
   run_ops FilterIconScan_Close (FilterIconScan_Read chunks) ops f = map (latched e) ops"
  by (rule run_ops_fixed) (simp_all add: FilterIconScan_Close_def FilterIconScan_Read_def)












lemma scan_scan_err: "scan chunks f = (a, f') \<Longrightarrow> scan_err f' = scan_err f"
  by (auto simp: scan_def split: option.splits prod.splits loop_exit.splits)



lemma run_ops_Read:
  "rd n s = (a, s') \<Longrightarrow> run_ops cl rd (OpRead n # ops) s = Reading a # run_ops cl rd ops s'"
  by simp






subsection \<open>The image-sheet scan (FilterIconScan)\<close>

text \<open>
  Claim C4 says that among the embedded images whose height is \<open>Size\<close> and whose width is a
  multiple of it the filter selects the first encountered widest one, and of two of equal width
  the first.  The loop of \<^verbatim>\<open>scan\<close> keeps that image in \<^verbatim>\<open>largest\<close>, under the comment
  \<^verbatim>\<open>Select first widest\<close>, but \<^verbatim>\<open>largest\<close> is only compared with nil when the stream ends:
  what the filter gives its reader is \<^verbatim>\<open>f.buf\<close>, reset and filled again at every header.  On
  the sheet with widths 32, 32 and \<open>Size\<close> 16 the loop ends with the first image (pixel \<open>a\<close>)
  in \<^verbatim>\<open>largest\<close>, and \<^verbatim>\<open>Read\<close> gives the bytes of the second (pixel \<open>b\<close>): the later image
  of equal width has replaced the first.
\<close>

theorem iconscan_equal_width_gives_second_image:
  "scan_loop mini_chunks 16 EOF sheet_32_32 [] None =
     Break (mini_png 32 16 CHR ''b'') \<lparr>Dx = 32, Dy = 16, Pix = ''a''\<rparr> \<and>
   fst (FilterIconScan_Read mini_chunks 64
          \<lparr>scan_Size = 16, scan_r = Some (demo_upstream sheet_32_32),
           scan_buf = [], scan_err = None\<rparr>)
     = Returns (mini_png 32 16 CHR ''b'', None) \<and>
   mini_png 32 16 CHR ''b'' \<noteq> mini_png 32 16 CHR ''a''"
  by code_simp

text \<open>
  Claim C1 says that the bytes read from the filter are the encoded bytes of the
  selected image.  The code resets \<^verbatim>\<open>f.buf\<close> before every decoding and never copies
  the selected image's bytes: the buffer holds the bytes of the last image decoded.
  On the sheet with widths 16, 32, 16 the selected image is the 32 wide one, and
  \<^verbatim>\<open>Read\<close> gives the bytes of the third image, 16 wide.
\<close>

theorem iconscan_read_gives_last_image:
  "scan_loop mini_chunks 16 EOF sheet_16_32_16 [] None =
     Break (mini_png 16 16 CHR ''c'') \<lparr>Dx = 32, Dy = 16, Pix = ''b''\<rparr> \<and>
   fst (FilterIconScan_Read mini_chunks 64
          \<lparr>scan_Size = 16, scan_r = Some (demo_upstream sheet_16_32_16),
           scan_buf = [], scan_err = None\<rparr>)
     = Returns (mini_png 16 16 CHR ''c'', None) \<and>
   mini_png 16 16 CHR ''c'' \<noteq> mini_png 32 16 CHR ''b''"
  by code_simp

lemma scan_success_closed:
  "scan chunks f = (Returns None, f1) \<Longrightarrow>
   \<exists>s1. scan_r f1 = Some s1 \<and> closed s1 \<and> scan_Size f1 = scan_Size f"
  by (auto simp: scan_def source_Close_def drained_def
      split: option.splits prod.splits loop_exit.splits if_splits)

lemma scan_loop_empty: "scan_loop chunks Size fin [] buf None = Return fin buf"
  by (subst scan_loop.simps) (simp add: readBytes.simps header_def)

lemma scan_on_closed:
  "scan_r f = Some s \<Longrightarrow> closed s \<Longrightarrow>
   scan chunks f = (Returns (Some (read_after_close s)), f\<lparr>scan_r := Some s\<rparr>)"
  by (simp add: scan_def bufio_view_def scan_loop_empty source_Close_def drained_def)

text \<open>
  Claim C10, amended: let the scan have succeeded (\<open>scan\<close> returned no error, leaving
  the filter \<open>f1\<close>) and the buffered bytes be consumed (the buffer of \<open>f1\<close> is empty).
  The next \<^verbatim>\<open>Read\<close>, whatever its length, runs the scan again on the upstream, which
  the first scan closed: it returns no bytes and the error with which the closed
  upstream answers a \<^verbatim>\<open>Read\<close>.  That error becomes the filter's error state: every
  later \<^verbatim>\<open>Close\<close> or \<^verbatim>\<open>Read\<close> returns it.  So the \<^verbatim>\<open>Read\<close> returns \<^verbatim>\<open>io.EOF\<close> only if
  the closed upstream itself answers \<^verbatim>\<open>io.EOF\<close>; a filter of this package answers
  with the closed-state marker or its own failure.
\<close>

theorem read_after_drained_scan:
  assumes "scan_err f0 = None" and "scan chunks f0 = (Returns None, f1)"
  shows "\<exists>s1 f2. scan_r f1 = Some s1 \<and> closed s1 \<and>
           FilterIconScan_Read chunks n (f1\<lparr>scan_buf := []\<rparr>) =
             (Returns ([], Some (read_after_close s1)), f2) \<and>
           scan_err f2 = Some (read_after_close s1) \<and>
           run_ops FilterIconScan_Close (FilterIconScan_Read chunks) ops f2 =
             map (latched (read_after_close s1)) ops"
proof -
  from scan_success_closed[OF assms(2)] obtain s1 where
    s1: "scan_r f1 = Some s1" "closed s1" by blast
  from scan_scan_err[OF assms(2)] assms(1) have e1: "scan_err f1 = None" by simp
  let ?f = "f1\<lparr>scan_buf := []\<rparr>"
  let ?f2 = "?f\<lparr>scan_r := Some s1, scan_err := Some (read_after_close s1)\<rparr>"
  from s1 have "scan chunks ?f = (Returns (Some (read_after_close s1)), ?f\<lparr>scan_r := Some s1\<rparr>)"
    by (intro scan_on_closed) simp_all
  with e1 have rd: "FilterIconScan_Read chunks n ?f = (Returns ([], Some (read_after_close s1)), ?f2)"
    by (simp add: FilterIconScan_Read_def)
  have "scan_err ?f2 = Some (read_after_close s1)" by simp
  with rd s1 scan_latched[of ?f2 "read_after_close s1" chunks ops] show ?thesis by blast
qed

text \<open>
  Claim C10, as stated, says that this \<^verbatim>\<open>Read\<close> does not return \<^verbatim>\<open>io.EOF\<close>.  It does
  when the closed upstream answers \<^verbatim>\<open>Read\<close> with \<^verbatim>\<open>io.EOF\<close>: over such an upstream
  holding one 16 by 16 image, the first \<^verbatim>\<open>Read\<close> gives the image, the next ones
  give \<^verbatim>\<open>io.EOF\<close>.
\<close>

theorem read_after_drained_scan_eof:
  "run_ops FilterIconScan_Close (FilterIconScan_Read mini_chunks) [OpRead 64, OpRead 64, OpRead 64]
     (demo_scan (demo_nop_upstream (mini_png 16 16 CHR ''a''))) =
   [Reading (Returns (mini_png 16 16 CHR ''a'', None)),
    Reading (Returns ([], Some EOF)),
    Reading (Returns ([], Some EOF))]"
  by code_simp

lemma Read_runs_scan:
  "scan_err f = None \<Longrightarrow> scan_buf f = [] \<Longrightarrow> scan chunks f = (Returns None, f1) \<Longrightarrow>
   FilterIconScan_Read chunks n f =
     (Returns (fst (buf_Read n (scan_buf f1))), f1\<lparr>scan_buf := snd (buf_Read n (scan_buf f1))\<rparr>)"
  by (simp add: FilterIconScan_Read_def split: prod.splits)

lemma buf_Read_all: "buf \<noteq> [] \<Longrightarrow> length buf \<le> n \<Longrightarrow> buf_Read n buf = ((buf, None), [])"
  by (simp add: buf_Read_def)

text \<open>
  The theorem on the sheet with widths 16, 32, 16 over an upstream that answers
  with the closed-state marker once closed.
\<close>

theorem read_after_drained_scan_witness:
  "scan_err (demo_scan (demo_upstream sheet_16_32_16)) = None \<and>
   fst (scan mini_chunks (demo_scan (demo_upstream sheet_16_32_16))) = Returns None \<and>
   run_ops FilterIconScan_Close (FilterIconScan_Read mini_chunks) [OpRead 64, OpRead 64, OpRead 64, OpClose]
     (demo_scan (demo_upstream sheet_16_32_16)) =
   [Reading (Returns (mini_png 16 16 CHR ''c'', None)),
    Reading (Returns ([], Some Closed)),
    Reading (Returns ([], Some Closed)),
    Closing (Returns (Some Closed))]"
proof -
  let ?f0 = "demo_scan (demo_upstream sheet_16_32_16)"
  let ?f1 = "snd (scan mini_chunks ?f0)"
  have e0: "scan_err ?f0 = None" by (simp add: demo_scan_def)
  have s0: "fst (scan mini_chunks ?f0) = Returns None" by code_simp
  then have sc: "scan mini_chunks ?f0 = (Returns None, ?f1)" by (simp add: prod_eq_iff)
  have b0: "scan_buf ?f0 = []" by (simp add: demo_scan_def)
  have b1: "scan_buf ?f1 = mini_png 16 16 CHR ''c''" by code_simp
  have r1: "read_after_close (the (scan_r ?f1)) = Closed" by code_simp
  have "buf_Read 64 (mini_png 16 16 CHR ''c'') = ((mini_png 16 16 CHR ''c'', None), [])"
    by (rule buf_Read_all) (simp_all add: mini_png_def header_def)
  with Read_runs_scan[OF e0 b0 sc, of 64] b1
  have first: "FilterIconScan_Read mini_chunks 64 ?f0 =
      (Returns (mini_png 16 16 CHR ''c'', None), ?f1\<lparr>scan_buf := []\<rparr>)"
    by simp
  from read_after_drained_scan[OF e0 sc, of 64 "[OpRead 64, OpClose]"] r1
  obtain f2 where
    "FilterIconScan_Read mini_chunks 64 (?f1\<lparr>scan_buf := []\<rparr>) = (Returns ([], Some Closed), f2)"
    "run_ops FilterIconScan_Close (FilterIconScan_Read mini_chunks) [OpRead 64, OpClose] f2 =
       map (latched Closed) [OpRead 64, OpClose]"
    by auto
  with first e0 s0 show ?thesis by simp
qed

subsection \<open>Identifier substitution (expandGUID)\<close>

lemma getShellName_plain: "plain c \<Longrightarrow> getShellName (c # cs) = ([], 0)"
  by (simp add: plain_def)

lemma getShellName_zero: "getShellName cs = ([], 0) \<Longrightarrow> cs \<noteq> [] \<Longrightarrow> plain (hd cs)"
  by (cases cs) (auto simp: plain_def Let_def split: if_splits)

lemma dollar_special: "isShellSpecialVar CHR ''$''"
  by (simp add: isShellSpecialVar_def)

lemma inert_Expand: "inert t \<Longrightarrow> Expand t m = t"
proof (induction t)
  case Nil
  then show ?case by simp
next
  case (Cons c cs)
  show ?case
  proof (cases "c = CHR ''$'' \<and> cs \<noteq> []")
    case True
    with Cons.prems obtain d ds where cs: "cs = d # ds" and pl: "plain d"
      by (cases cs) auto
    from Cons have "Expand cs m = cs" by simp
    with True cs pl show ?thesis
      by (simp add: getShellName_plain del: getShellName.simps)
  next
    case False
    with Cons show ?thesis by auto
  qed
qed

lemma inert_append_nodollar: "CHR ''$'' \<notin> set g \<Longrightarrow> inert (g @ t) = inert t"
  by (induction g) auto

lemma Expand_inert:
  assumes "\<forall>v. CHR ''$'' \<notin> set (m v)"
  shows "inert (Expand s m)"
  using assms
proof (induction s m rule: Expand.induct)
  case (1 m)
  show ?case by simp
next
  case (2 c cs m)
  show ?case
  proof (cases "c = CHR ''$'' \<and> cs \<noteq> []")
    case False
    with 2 show ?thesis by auto
  next
    case True
    obtain name w where g: "getShellName cs = (name, w)"
      by (cases "getShellName cs")
    from 2(1)[OF True g[symmetric]] 2(3) have IH: "inert (Expand (drop w cs) m)"
      by simp
    show ?thesis
    proof (cases "name = []")
      case False
      from 2(3) have nd: "CHR ''$'' \<notin> set (m name)" by simp
      from False True g IH show ?thesis
        by (simp add: inert_append_nodollar[OF nd] del: getShellName.simps)
    next
      case n: True
      show ?thesis
      proof (cases "w > 0")
        case True
        with n \<open>c = CHR ''$'' \<and> cs \<noteq> []\<close> g IH show ?thesis
          by (simp del: getShellName.simps)
      next
        case False
        with n g True have pl: "plain (hd cs)"
          by (auto intro: getShellName_zero)
        from True obtain d ds where cs: "cs = d # ds"
          by (cases cs) auto
        with pl have "d \<noteq> CHR ''$''"
          using dollar_special by (auto simp: plain_def)
        with cs have hdE: "Expand cs m = d # Expand ds m" by simp
        from False n g True IH hdE pl cs show ?thesis
          by (simp del: getShellName.simps)
      qed
    qed
  qed
qed

text \<open>
  Claim C5, as stated: for every template and every build identifier, substituting
  twice gives what substituting once gives.  It fails when the identifier itself
  holds a \<^verbatim>\<open>$\<close>: the template \<^verbatim>\<open>$GUID\<close> with the identifier \<^verbatim>\<open>$x\<close> expands to \<^verbatim>\<open>$x\<close>,
  and expanding that again reads \<^verbatim>\<open>$x\<close> as an unknown variable and gives the empty
  string.
\<close>

theorem expandGUID_twice_differs:
  "expandGUID asciiToLower ''$GUID'' ''$x'' = ''$x'' \<and>
   expandGUID asciiToLower (expandGUID asciiToLower ''$GUID'' ''$x'') ''$x'' = ''''"
  by code_simp

text \<open>
  Claim C5, amended: for every template, every build identifier without a \<^verbatim>\<open>$\<close> byte
  (and whatever \<^verbatim>\<open>strings.ToLower\<close> does), substituting twice with the same identifier
  gives the same string as substituting once.
\<close>

theorem expandGUID_idempotent:
  "CHR ''$'' \<notin> set guid \<Longrightarrow>
   expandGUID L (expandGUID L s guid) guid = expandGUID L s guid"
  unfolding expandGUID_def
  by (rule inert_Expand, rule Expand_inert) simp

theorem expandGUID_idempotent_witness:
  "CHR ''$'' \<notin> set ''version-abc'' \<and>
   expandGUID asciiToLower ''https://setup.rbxcdn.com/$GUID-API-Dump.json'' ''version-abc''
     = ''https://setup.rbxcdn.com/version-abc-API-Dump.json'' \<and>
   expandGUID asciiToLower
     (expandGUID asciiToLower ''https://setup.rbxcdn.com/$GUID-API-Dump.json'' ''version-abc'')
     ''version-abc''
     = ''https://setup.rbxcdn.com/version-abc-API-Dump.json''"
proof -
  have nd: "CHR ''$'' \<notin> set ''version-abc''" by simp
  have once: "expandGUID asciiToLower ''https://setup.rbxcdn.com/$GUID-API-Dump.json''
      ''version-abc'' = ''https://setup.rbxcdn.com/version-abc-API-Dump.json''"
    by code_simp
  from expandGUID_idempotent[OF nd, of asciiToLower
      "''https://setup.rbxcdn.com/$GUID-API-Dump.json''"] nd once
  show ?thesis by simp
qed

subsection \<open>The archive member source (FilterZip)\<close>

lemma find_zfile_None: "find_zfile zs name = None \<longleftrightarrow> (\<forall>z\<in>set zs. Name z \<noteq> name)"
  by (induction zs) auto

lemma find_zfile_Some:
  "find_zfile zs name = Some z \<Longrightarrow>
   \<exists>pre post. zs = pre @ z # post \<and> Name z = name \<and> (\<forall>y\<in>set pre. Name y \<noteq> name)"
proof (induction zs)
  case Nil
  then show ?case by simp
next
  case (Cons a zs)
  show ?case
  proof (cases "Name a = name")
    case True
    with Cons.prems have "a # zs = [] @ z # zs \<and> Name z = name \<and> (\<forall>y\<in>set []. Name y \<noteq> name)"
      by simp
    then show ?thesis by blast
  next
    case False
    with Cons obtain pre post where "zs = pre @ z # post" "Name z = name"
        "\<forall>y\<in>set pre. Name y \<noteq> name" by auto
    with False have "a # zs = (a # pre) @ z # post \<and> Name z = name \<and>
        (\<forall>y\<in>set (a # pre). Name y \<noteq> name)" by simp
    then show ?thesis by blast
  qed
qed

lemma unzip_upstream:
  "\<not> closed s \<Longrightarrow> nr (pending s) = Inr zs \<Longrightarrow>
   unzip nr (OfUpstream s) name =
     (case find_zfile zs name of
        None \<Rightarrow> Inl (NotInArchive name)
      | Some z \<Rightarrow>
          (case Opened z of Inl e \<Rightarrow> Inl e | Inr member \<Rightarrow> Inr \<lparr>zc = ZcUpstream, zf = member\<rparr>))"
  by (simp add: unzip_def rasc_Seek_def rasc_bytes_def split: option.splits sum.splits)

lemma unzip_bytes:
  "nr b = Inr zs \<Longrightarrow>
   unzip nr (OfBytes b) name =
     (case find_zfile zs name of
        None \<Rightarrow> Inl (NotInArchive name)
      | Some z \<Rightarrow>
          (case Opened z of Inl e \<Rightarrow> Inl e | Inr member \<Rightarrow> Inr \<lparr>zc = ZcNop, zf = member\<rparr>))"
  by (simp add: unzip_def rasc_Seek_def rasc_bytes_def split: option.splits sum.splits)

lemma zip_Read_missing:
  assumes "zip_err f = None" "zip_zr f = None" "zip_r f = Some s" "\<not> closed s"
    "seekable s \<or> ending s = EOF" "nr (pending s) = Inr zs" "0 < n"
    "find_zfile zs (zip_File f) = None"
  shows "\<exists>f'. FilterZip_Read nr n f = (Returns ([], Some (NotInArchive (zip_File f))), f') \<and>
           zip_err f' = Some (NotInArchive (zip_File f))"
proof (cases "seekable s")
  case True
  with assms show ?thesis
    by (simp add: FilterZip_Read_def unzip_upstream)
next
  case False
  with assms have "ending s = EOF" by simp
  with False assms show ?thesis
    by (simp add: FilterZip_Read_def unzip_bytes ioutil_ReadAll_def source_Close_def)
qed

lemma zip_Read_found:
  assumes "zip_err f = None" "zip_zr f = None" "zip_r f = Some s" "\<not> closed s"
    "seekable s \<or> ending s = EOF" "nr (pending s) = Inr zs" "0 < n"
    "find_zfile zs (zip_File f) = Some z" "Opened z = Inr member"
  shows "\<exists>f'. FilterZip_Read nr n f = (Returns (fst (source_Read n member)), f') \<and>
           zip_err f' = None \<and> zip_zr f' \<noteq> None"
proof (cases "seekable s")
  case True
  with assms show ?thesis
    by (simp add: FilterZip_Read_def unzip_upstream zr_Read_def split: prod.splits)
next
  case False
  with assms have "ending s = EOF" by simp
  with False assms show ?thesis
    by (simp add: FilterZip_Read_def unzip_bytes ioutil_ReadAll_def source_Close_def zr_Read_def
        split: prod.splits)
qed

text \<open>
  Claim C6, as stated, says that when no member matches the first read fails with
  an error that names both the missing member and the archive.  A first \<^verbatim>\<open>Read\<close>
  with an empty buffer returns no error (the guard \<^verbatim>\<open>len(p) == 0\<close>), and the error,
  \<^verbatim>\<open>fmt.Errorf("%q not in archive", filename)\<close>, holds the member's name only: two
  different containers without \<^verbatim>\<open>c.txt\<close> give the same error.
\<close>

theorem zip_missing_member_error:
  "fst (FilterZip_Read demo_NewReader 0 (demo_zip ''PK:a.txt,b.txt'' ''c.txt'')) =
     Returns ([], None) \<and>
   fst (FilterZip_Read demo_NewReader 8 (demo_zip ''PK:a.txt,b.txt'' ''c.txt'')) =
     Returns ([], Some (NotInArchive ''c.txt'')) \<and>
   fst (FilterZip_Read demo_NewReader 8 (demo_zip ''PK:x.txt'' ''c.txt'')) =
     Returns ([], Some (NotInArchive ''c.txt''))"
  by code_simp

text \<open>
  Claim C6, amended: \<^verbatim>\<open>unzip\<close> looks through the member directory in its order for
  a member whose name is exactly the requested one and takes the first
  (\<open>find_zfile\<close> is \<open>None\<close> exactly when no name matches; a member found stands
  after members of other names only).  For a filter that has not read yet, over an
  open upstream that is seekable or ends cleanly and holds a well-formed container,
  a \<^verbatim>\<open>Read\<close> of at least one byte gives: when no member matches, the error
  \<open>NotInArchive\<close> with the name of the missing member (it does not identify the
  archive), which is terminal, every later \<^verbatim>\<open>Read\<close> or \<^verbatim>\<open>Close\<close> returning it; when
  the first match can be opened, the bytes read from that member.
\<close>

theorem zip_member_lookup:
  "(find_zfile zs name = None \<longleftrightarrow> (\<forall>z\<in>set zs. Name z \<noteq> name)) \<and>
   (find_zfile zs name = Some z \<longrightarrow>
      (\<exists>pre post. zs = pre @ z # post \<and> Name z = name \<and> (\<forall>y\<in>set pre. Name y \<noteq> name))) \<and>
   (zip_err f = None \<and> zip_zr f = None \<and> zip_r f = Some s \<and> \<not> closed s \<and>
    (seekable s \<or> ending s = EOF) \<and> nr (pending s) = Inr zs \<and> 0 < n \<longrightarrow>
      (find_zfile zs (zip_File f) = None \<longrightarrow>
         (\<exists>f'. FilterZip_Read nr n f = (Returns ([], Some (NotInArchive (zip_File f))), f') \<and>
            run_ops FilterZip_Close (FilterZip_Read nr) ops f' =
              map (latched (NotInArchive (zip_File f))) ops)) \<and>
      (find_zfile zs (zip_File f) = Some z \<and> Opened z = Inr member \<longrightarrow>
         (\<exists>f'. FilterZip_Read nr n f = (Returns (fst (source_Read n member)), f') \<and>
            zip_err f' = None \<and> zip_zr f' \<noteq> None)))"
proof (intro conjI impI; (elim conjE)?)
  show "find_zfile zs name = None \<longleftrightarrow> (\<forall>z\<in>set zs. Name z \<noteq> name)"
    by (rule find_zfile_None)
  show "\<exists>pre post. zs = pre @ z # post \<and> Name z = name \<and> (\<forall>y\<in>set pre. Name y \<noteq> name)"
    if "find_zfile zs name = Some z"
    using that by (rule find_zfile_Some)
  show "\<exists>f'. FilterZip_Read nr n f = (Returns ([], Some (NotInArchive (zip_File f))), f') \<and>
            run_ops FilterZip_Close (FilterZip_Read nr) ops f' =
              map (latched (NotInArchive (zip_File f))) ops"
    if "zip_err f = None" "zip_zr f = None" "zip_r f = Some s" "\<not> closed s"
      "seekable s \<or> ending s = EOF" "nr (pending s) = Inr zs" "0 < n"
      "find_zfile zs (zip_File f) = None"
    using that zip_Read_missing[of f s nr zs n] zip_latched by blast
  show "\<exists>f'. FilterZip_Read nr n f = (Returns (fst (source_Read n member)), f') \<and>
            zip_err f' = None \<and> zip_zr f' \<noteq> None"
    if "zip_err f = None" "zip_zr f = None" "zip_r f = Some s" "\<not> closed s"
      "seekable s \<or> ending s = EOF" "nr (pending s) = Inr zs" "0 < n"
      "find_zfile zs (zip_File f) = Some z" "Opened z = Inr member"
    using that zip_Read_found[of f s nr zs n z member] by blast
qed

text \<open>
  The theorem on the container with \<^verbatim>\<open>a.txt\<close> and \<^verbatim>\<open>b.txt\<close>: \<^verbatim>\<open>a.txt\<close> is extracted,
  \<^verbatim>\<open>c.txt\<close> is reported missing, for good.
\<close>

theorem zip_member_lookup_witness:
  "fst (FilterZip_Read demo_NewReader 8 (demo_zip ''PK:a.txt,b.txt'' ''a.txt''))
     = Returns (''hello'', None) \<and>
   run_ops FilterZip_Close (FilterZip_Read demo_NewReader) [OpRead 8, OpRead 8, OpClose]
     (demo_zip ''PK:a.txt,b.txt'' ''c.txt'') =
   [Reading (Returns ([], Some (NotInArchive ''c.txt''))),
    Reading (Returns ([], Some (NotInArchive ''c.txt''))),
    Closing (Returns (Some (NotInArchive ''c.txt'')))]"
proof -
  let ?zs = "[\<lparr>Name = ''a.txt'', Opened = Inr (demo_upstream ''hello'')\<rparr>,
              \<lparr>Name = ''b.txt'', Opened = Inr (demo_upstream ''world'')\<rparr>]"
  let ?s = "demo_upstream ''PK:a.txt,b.txt''"
  let ?fa = "demo_zip ''PK:a.txt,b.txt'' ''a.txt''"
  let ?fc = "demo_zip ''PK:a.txt,b.txt'' ''c.txt''"
  have nr: "demo_NewReader (pending ?s) = Inr ?zs"
    by (simp add: demo_NewReader_def demo_upstream_def)
  have st: "\<not> closed ?s" "seekable ?s \<or> ending ?s = EOF"
    by (simp_all add: demo_upstream_def)
  have fa: "zip_err ?fa = None" "zip_zr ?fa = None" "zip_r ?fa = Some ?s" "zip_File ?fa = ''a.txt''"
    by (simp_all add: demo_zip_def)
  have fc: "zip_err ?fc = None" "zip_zr ?fc = None" "zip_r ?fc = Some ?s" "zip_File ?fc = ''c.txt''"
    by (simp_all add: demo_zip_def)
  have found: "find_zfile ?zs ''a.txt'' = Some \<lparr>Name = ''a.txt'', Opened = Inr (demo_upstream ''hello'')\<rparr>"
    by simp
  have missing: "find_zfile ?zs ''c.txt'' = None" by simp
  have rd: "fst (source_Read 8 (demo_upstream ''hello'')) = (''hello'', None)"
    by (simp add: source_Read_def demo_upstream_def)
  let ?za = "\<lparr>Name = ''a.txt'', Opened = Inr (demo_upstream ''hello'')\<rparr>"
  have op: "Opened ?za = Inr (demo_upstream ''hello'')" by simp
  from nr st fa have Ha: "zip_err ?fa = None \<and> zip_zr ?fa = None \<and> zip_r ?fa = Some ?s \<and>
      \<not> closed ?s \<and> (seekable ?s \<or> ending ?s = EOF) \<and>
      demo_NewReader (pending ?s) = Inr ?zs \<and> 0 < (8::nat)" by simp
  from nr st fc have Hc: "zip_err ?fc = None \<and> zip_zr ?fc = None \<and> zip_r ?fc = Some ?s \<and>
      \<not> closed ?s \<and> (seekable ?s \<or> ending ?s = EOF) \<and>
      demo_NewReader (pending ?s) = Inr ?zs \<and> 0 < (8::nat)" by simp
  from zip_member_lookup[where f = ?fa and s = ?s and nr = demo_NewReader and zs = ?zs and n = 8
      and z = ?za and member = "demo_upstream ''hello''", THEN conjunct2, THEN conjunct2] Ha
  have "(find_zfile ?zs (zip_File ?fa) = Some ?za \<and> Opened ?za = Inr (demo_upstream ''hello'') \<longrightarrow>
         (\<exists>f'. FilterZip_Read demo_NewReader 8 ?fa =
                 (Returns (fst (source_Read 8 (demo_upstream ''hello''))), f') \<and>
            zip_err f' = None \<and> zip_zr f' \<noteq> None))"
    by (rule mp[THEN conjunct2])
  with found op fa(4) rd
  have "\<exists>f'. FilterZip_Read demo_NewReader 8 ?fa = (Returns (''hello'', None), f')"
    by (simp only:) blast
  then have A: "fst (FilterZip_Read demo_NewReader 8 ?fa) = Returns (''hello'', None)"
    by (elim exE) (simp only: fst_conv)
  from zip_member_lookup[where f = ?fc and s = ?s and nr = demo_NewReader and zs = ?zs and n = 8
      and ops = "[OpRead 8, OpClose]", THEN conjunct2, THEN conjunct2] Hc
  have "(find_zfile ?zs (zip_File ?fc) = None \<longrightarrow>
         (\<exists>f'. FilterZip_Read demo_NewReader 8 ?fc =
                 (Returns ([], Some (NotInArchive (zip_File ?fc))), f') \<and>
            run_ops FilterZip_Close (FilterZip_Read demo_NewReader) [OpRead 8, OpClose] f' =
              map (latched (NotInArchive (zip_File ?fc))) [OpRead 8, OpClose]))"
    by (rule mp[THEN conjunct1])
  with missing fc(4) obtain f' where
    r: "FilterZip_Read demo_NewReader 8 ?fc = (Returns ([], Some (NotInArchive ''c.txt'')), f')" and
    l: "run_ops FilterZip_Close (FilterZip_Read demo_NewReader) [OpRead 8, OpClose] f' =
       map (latched (NotInArchive ''c.txt'')) [OpRead 8, OpClose]"
    by (simp only:) blast
  have B: "run_ops FilterZip_Close (FilterZip_Read demo_NewReader) [OpRead 8, OpRead 8, OpClose] ?fc =
     [Reading (Returns ([], Some (NotInArchive ''c.txt''))),
      Reading (Returns ([], Some (NotInArchive ''c.txt''))),
      Closing (Returns (Some (NotInArchive ''c.txt'')))]"
    by (simp only: run_ops_Read[where rd = "FilterZip_Read demo_NewReader" and n = 8, OF r] l
        list.map latched.simps)
  from A B show ?thesis by (intro conjI)
qed

subsection \<open>Client.Live\<close>

lemma Live_loop_step_ok:
  "attempt lib client chain w = (Inr guid, w1) \<Longrightarrow>
   Live_loop lib client (chain # others) acc w = Live_loop lib client others (acc @ [guid]) w1"
  by (auto simp: attempt_def split: prod.splits sum.splits)

lemma Live_loop_step_fail:
  "attempt lib client chain w = (Inl e, w1) \<Longrightarrow>
   Live_loop lib client (chain # others) acc w = (([], Some e), w1)"
  by (auto simp: attempt_def split: prod.splits sum.splits)

lemma Live_loop_all:
  "succeed_all lib client cs w = Some (gs, w') \<Longrightarrow>
   Live_loop lib client cs acc w = ((acc @ gs, None), w')"
proof (induction cs arbitrary: w gs acc)
  case Nil
  then show ?case by simp
next
  case (Cons c cs)
  from Cons.prems obtain g w1 gs' where a: "attempt lib client c w = (Inr g, w1)"
    and r: "succeed_all lib client cs w1 = Some (gs', w')" and gs: "gs = g # gs'"
    by (auto split: prod.splits sum.splits option.splits)
  from Cons.IH[OF r, of "acc @ [g]"] Live_loop_step_ok[OF a, of cs acc] gs
  show ?case by simp
qed

lemma Live_loop_first_failure:
  "succeed_all lib client pre w = Some (gs, w1) \<Longrightarrow> attempt lib client c w1 = (Inl e, w2) \<Longrightarrow>
   Live_loop lib client (pre @ c # post) acc w = (([], Some e), w2)"
proof (induction pre arbitrary: w gs acc)
  case Nil
  then show ?case using Live_loop_step_fail[of lib client c w e w2 post acc] by simp
next
  case (Cons p pre)
  from Cons.prems(1) obtain g w0 gs' where a: "attempt lib client p w = (Inr g, w0)"
    and r: "succeed_all lib client pre w0 = Some (gs', w1)"
    by (auto split: prod.splits sum.splits option.splits)
  from Cons.IH[OF r Cons.prems(2), of "acc @ [g]"] Live_loop_step_ok[OF a, of "pre @ c # post" acc]
  show ?case by simp
qed

text \<open>
  Claim C7: \<^verbatim>\<open>Client.Live\<close> resolves and reads the chains configured for "Live" in
  order.  If every chain succeeds (\<open>succeed_all\<close>), the decoded identifiers are
  returned in chain order with no error.  If the chains before \<open>c\<close> succeed and \<open>c\<close>
  fails with \<open>e\<close>, in its resolution or in decoding its content, \<open>Live\<close> returns nil
  and \<open>e\<close>, and the world is left as that failed attempt left it: the chains after
  \<open>c\<close> are not touched.
\<close>

theorem Live_all_required_fail_fast:
  assumes "methods client ''Live'' = Some cs"
  shows "(succeed_all lib client cs w = Some (guids, w') \<longrightarrow>
            Live lib client w = ((guids, None), w')) \<and>
         (cs = pre @ c # post \<and> succeed_all lib client pre w = Some (gs, w1) \<and>
          attempt lib client c w1 = (Inl e, w2) \<longrightarrow>
            Live lib client w = (([], Some e), w2))"
  using assms Live_loop_all[of lib client cs w guids w' "[]"]
    Live_loop_first_failure[of lib client pre w gs w1 c e w2 post "[]"]
  by (auto simp: Live_def)


text \<open>
  The theorem at the default configuration (chains \<^verbatim>\<open>Live64\<close>, \<^verbatim>\<open>Live\<close>): with both
  chains decoding, and with the first one failing to decode.
\<close>

theorem Live_all_required_fail_fast_witness:
  "methods demo_client ''Live'' = Some [''Live64'', ''Live''] \<and>
   Live (demo_framework ''none'') demo_client [] =
     (([''version-of-Live64'', ''version-of-Live''], None),
      [''resolve Live64'', ''decode Live64'', ''close Live64'',
       ''resolve Live'', ''decode Live'', ''close Live'']) \<and>
   Live (demo_framework ''Live64'') demo_client [] =
     (([], Some (Err ''cannot decode Live64'')),
      [''resolve Live64'', ''decode Live64'', ''close Live64''])"
proof -
  have m: "methods demo_client ''Live'' = Some [''Live64'', ''Live'']"
    by (simp add: demo_client_def)
  have ok: "succeed_all (demo_framework ''none'') demo_client [''Live64'', ''Live''] [] =
      Some ([''version-of-Live64'', ''version-of-Live''],
        [''resolve Live64'', ''decode Live64'', ''close Live64'',
         ''resolve Live'', ''decode Live'', ''close Live''])"
    by (simp add: attempt_def resolve_def demo_framework_def)
  have pre: "succeed_all (demo_framework ''Live64'') demo_client [] [] = Some ([], [])"
    by simp
  have bad: "attempt (demo_framework ''Live64'') demo_client ''Live64'' [] =
      (Inl (Err ''cannot decode Live64''),
       [''resolve Live64'', ''decode Live64'', ''close Live64''])"
    by (simp add: attempt_def resolve_def demo_framework_def)
  from Live_all_required_fail_fast[OF m, of "demo_framework ''none''" "[]" _ _ "[]" "''Live64''" "[''Live'']"] ok
  have 1: "Live (demo_framework ''none'') demo_client [] =
     (([''version-of-Live64'', ''version-of-Live''], None),
      [''resolve Live64'', ''decode Live64'', ''close Live64'',
       ''resolve Live'', ''decode Live'', ''close Live''])"
    by simp
  from Live_all_required_fail_fast[OF m, of "demo_framework ''Live64''" "[]" _ _ "[]" "''Live64''" "[''Live'']"] pre bad
  have 2: "Live (demo_framework ''Live64'') demo_client [] =
     (([], Some (Err ''cannot decode Live64'')),
      [''resolve Live64'', ''decode Live64'', ''close Live64''])"
    by simp
  from m 1 2 show ?thesis by simp
qed

subsection \<open>Closed and failed filters\<close>




text \<open>
  The amended statement speaks of a filter that holds its underlying stream.  A URL or file
  filter holds none until its first non-empty \<^verbatim>\<open>Read\<close>: \<^verbatim>\<open>Close\<close> then calls
  \<^verbatim>\<open>f.r.Close()\<close> on a nil interface value and panics, leaving \<^verbatim>\<open>f.err\<close> nil, so that the
  next \<^verbatim>\<open>Close\<close> panics again.  \<^verbatim>\<open>FilterZip.Close\<close> tests its \<^verbatim>\<open>zr\<close> against nil before it
  uses it; \<^verbatim>\<open>FilterURL.Close\<close> and \<^verbatim>\<open>FilterFile.Close\<close> have no such test for \<^verbatim>\<open>r\<close>.
\<close>

lemma Close_before_Read_panics:
  "url_err fu = None \<and> url_r fu = None \<longrightarrow>
     run_ops FilterURL_Close_in (FilterURL_Read env) [OpClose, OpClose] (fu, w) =
       [Closing Panics, Closing Panics]"
  "file_err ff = None \<and> file_r ff = None \<longrightarrow>
     run_ops FilterFile_Close_in (FilterFile_Read env) [OpClose, OpClose] (ff, w) =
       [Closing Panics, Closing Panics]"
  by (simp_all add: FilterURL_Close_in_def FilterURL_Close_def
      FilterFile_Close_in_def FilterFile_Close_def)
subsection \<open>The cache key\<close>

lemma percent_escaped: "shouldEscape CHR ''%''"
  by (simp add: shouldEscape_def)

lemma upperhex_inj:
  "i < 16 \<Longrightarrow> j < 16 \<Longrightarrow> upperhex ! i = upperhex ! j \<Longrightarrow> i = j"
proof -
  have d: "distinct upperhex" by (simp add: upperhex_def)
  have l: "length upperhex = 16" by (simp add: upperhex_def)
  show "i < 16 \<Longrightarrow> j < 16 \<Longrightarrow> upperhex ! i = upperhex ! j \<Longrightarrow> i = j"
    using d l by (simp add: nth_eq_iff_index_eq)
qed

lemma of_char_lt_256: "(of_char c :: nat) < 256"
  by (metis of_char_mod_256 mod_less_divisor zero_less_numeral)

lemma escape_byte_escaped_inj:
  assumes "shouldEscape c" "shouldEscape d"
    and "escape_byte c @ xs = escape_byte d @ ys"
  shows "c = d \<and> xs = ys"
proof -
  let ?n = "of_char c :: nat" and ?m = "of_char d :: nat"
  from assms have h: "upperhex ! (?n div 16) = upperhex ! (?m div 16)"
    and l: "upperhex ! (?n mod 16) = upperhex ! (?m mod 16)" and r: "xs = ys"
    by (simp_all add: escape_byte_def)
  have "?n div 16 < 16" "?m div 16 < 16"
    using of_char_lt_256[of c] of_char_lt_256[of d] by arith+
  with h have 1: "?n div 16 = ?m div 16" by (rule upperhex_inj[rotated 2])
  have "?n mod 16 < 16" "?m mod 16 < 16" by simp_all
  with l have 2: "?n mod 16 = ?m mod 16" by (rule upperhex_inj[rotated 2])
  from 1 2 have "?n = ?m" by (metis div_mult_mod_eq)
  then have "c = d" by (rule of_char_eqI)
  with r show ?thesis by simp
qed

lemma escape_byte_nonempty: "escape_byte c \<noteq> []"
  by (simp add: escape_byte_def)

lemma escape_byte_mixed:
  assumes "shouldEscape c" "\<not> shouldEscape d"
  shows "escape_byte c @ xs \<noteq> escape_byte d @ ys"
proof
  assume "escape_byte c @ xs = escape_byte d @ ys"
  with assms have "d = CHR ''%''" by (simp add: escape_byte_def)
  with assms(2) percent_escaped show False by simp
qed

lemma escape_byte_plain_inj:
  assumes "\<not> shouldEscape c" "\<not> shouldEscape d" "escape_byte c @ xs = escape_byte d @ ys"
  shows "c = d \<and> xs = ys"
  using assms by (simp add: escape_byte_def)

lemma escape_byte_inj:
  assumes "escape_byte c @ xs = escape_byte d @ ys"
  shows "c = d \<and> xs = ys"
proof (cases "shouldEscape c")
  case ec: True
  show ?thesis
  proof (cases "shouldEscape d")
    case True
    from escape_byte_escaped_inj[OF ec True assms] show ?thesis .
  next
    case False
    with ec assms escape_byte_mixed show ?thesis by blast
  qed
next
  case nc: False
  show ?thesis
  proof (cases "shouldEscape d")
    case True
    with nc assms escape_byte_mixed[of d c ys xs] show ?thesis by simp
  next
    case False
    from escape_byte_plain_inj[OF nc False assms] show ?thesis .
  qed
qed

lemma PathEscape_inj: "PathEscape xs = PathEscape ys \<Longrightarrow> xs = ys"
  unfolding PathEscape_def
proof (induction xs arbitrary: ys)
  case Nil
  then show ?case by (cases ys) (simp_all add: escape_byte_nonempty)
next
  case (Cons c cs)
  show ?case
  proof (cases ys)
    case Nil
    with Cons.prems show ?thesis by (simp add: escape_byte_nonempty)
  next
    case (Cons d ds)
    with Cons.prems have eq:
      "escape_byte c @ concat (map escape_byte cs) = escape_byte d @ concat (map escape_byte ds)"
      by simp
    from escape_byte_inj[OF eq] Cons.IH Cons show ?thesis by simp
  qed
qed

lemma takeWhile_host:
  "CHR ''/'' \<notin> set h \<Longrightarrow> p = [] \<or> hd p = CHR ''/'' \<Longrightarrow>
   takeWhile (\<lambda>c. c \<noteq> CHR ''/'') (h @ p) = h"
proof (induction h)
  case Nil
  then show ?case by (cases p) auto
next
  case (Cons a h)
  then show ?case by auto
qed

lemma rooted_split:
  assumes "rooted a" "rooted b" "Host a @ Path a = Host b @ Path b"
  shows "Host a = Host b \<and> Path a = Path b"
proof -
  from assms(1) have 1: "takeWhile (\<lambda>c. c \<noteq> CHR ''/'') (Host a @ Path a) = Host a"
    unfolding rooted_def by (intro takeWhile_host) simp_all
  from assms(2) have 2: "takeWhile (\<lambda>c. c \<noteq> CHR ''/'') (Host b @ Path b) = Host b"
    unfolding rooted_def by (intro takeWhile_host) simp_all
  from 1 2 assms(3) have "Host a = Host b" by simp
  with assms(3) show ?thesis by simp
qed

text \<open>
  Claim C9, as stated, says that two addresses that differ in host or path have
  distinct cache keys.  The key is made from the concatenation \<^verbatim>\<open>loc.Host+loc.Path\<close>:
  host \<^verbatim>\<open>a\<close> with path \<^verbatim>\<open>/b\<close> (from \<^verbatim>\<open>https://a/b\<close>) and no host with path \<^verbatim>\<open>a/b\<close>
  (from the relative address \<^verbatim>\<open>a/b\<close>, which \<^verbatim>\<open>url.Parse\<close> accepts) have the same key.
\<close>

theorem cacheKey_collision:
  "Host \<lparr>Scheme = ''https'', Host = ''a'', Path = ''/b'', RawQuery = [], Fragment = []\<rparr>
     \<noteq> Host \<lparr>Scheme = [], Host = [], Path = ''a/b'', RawQuery = [], Fragment = []\<rparr> \<and>
   cacheKey \<lparr>Scheme = ''https'', Host = ''a'', Path = ''/b'', RawQuery = [], Fragment = []\<rparr>
     = cacheKey \<lparr>Scheme = [], Host = [], Path = ''a/b'', RawQuery = [], Fragment = []\<rparr>"
proof -
  have "''a'' @ ''/b'' = [] @ ''a/b''" by simp
  then show ?thesis by (simp add: cacheKey_def)
qed

text \<open>
  Claim C9, amended: the cache key depends on host and path only (addresses with
  the same host and path have the same key, whatever their scheme and query); two
  addresses have the same key exactly when the concatenations of host and path
  agree (\<^verbatim>\<open>url.PathEscape\<close> is injective); so two rooted addresses, whose host holds
  no \<^verbatim>\<open>/\<close> and whose path is empty or starts with \<^verbatim>\<open>/\<close>, that differ in host or path
  have distinct keys.
\<close>

theorem cacheKey_host_path:
  "(Host a = Host b \<and> Path a = Path b \<longrightarrow> cacheKey a = cacheKey b) \<and>
   (cacheKey a = cacheKey b \<longleftrightarrow> Host a @ Path a = Host b @ Path b) \<and>
   (rooted a \<and> rooted b \<and> (Host a \<noteq> Host b \<or> Path a \<noteq> Path b) \<longrightarrow> cacheKey a \<noteq> cacheKey b)"
proof -
  have 1: "cacheKey a = cacheKey b" if "Host a = Host b \<and> Path a = Path b"
    using that by (simp only: cacheKey_def)
  have 2: "Host a @ Path a = Host b @ Path b" if "cacheKey a = cacheKey b"
    using that unfolding cacheKey_def by (rule PathEscape_inj)
  have 3: "cacheKey a = cacheKey b" if "Host a @ Path a = Host b @ Path b"
    using that by (simp only: cacheKey_def)
  have 4: "cacheKey a \<noteq> cacheKey b"
    if "rooted a \<and> rooted b \<and> (Host a \<noteq> Host b \<or> Path a \<noteq> Path b)"
  proof
    assume "cacheKey a = cacheKey b"
    then have "Host a @ Path a = Host b @ Path b" by (rule 2)
    with that rooted_split[of a b] show False by blast
  qed
  from 1 2 3 4 show ?thesis by blast
qed

text \<open>
  The theorem on addresses of the default configuration: the key of the API dump,
  the same key under another scheme and query, another key for another path.
\<close>

theorem cacheKey_host_path_witness:
  "cacheKey (demo_loc ''https'' ''/version-abc-API-Dump.json'' [])
     = ''setup.rbxcdn.com%2Fversion-abc-API-Dump.json'' \<and>
   cacheKey (demo_loc ''https'' ''/version-abc-API-Dump.json'' [])
     = cacheKey (demo_loc ''http'' ''/version-abc-API-Dump.json'' ''x=1'') \<and>
   rooted (demo_loc ''https'' ''/version-abc-API-Dump.json'' []) \<and>
   rooted (demo_loc ''https'' ''/version-abc-RobloxStudio.zip'' []) \<and>
   cacheKey (demo_loc ''https'' ''/version-abc-API-Dump.json'' [])
     \<noteq> cacheKey (demo_loc ''https'' ''/version-abc-RobloxStudio.zip'' [])"
proof -
  let ?a = "demo_loc ''https'' ''/version-abc-API-Dump.json'' []"
  let ?b = "demo_loc ''http'' ''/version-abc-API-Dump.json'' ''x=1''"
  let ?c = "demo_loc ''https'' ''/version-abc-RobloxStudio.zip'' []"
  have k: "cacheKey ?a = ''setup.rbxcdn.com%2Fversion-abc-API-Dump.json''"
    by code_simp
  have hp: "Host ?a = Host ?b \<and> Path ?a = Path ?b" by (simp add: demo_loc_def)
  have ra: "rooted ?a" and rc: "rooted ?c" by (simp_all add: rooted_def demo_loc_def)
  have d: "Host ?a \<noteq> Host ?c \<or> Path ?a \<noteq> Path ?c" by (simp add: demo_loc_def)
  from cacheKey_host_path[of ?a ?b] hp have 1: "cacheKey ?a = cacheKey ?b" by blast
  from cacheKey_host_path[of ?a ?c] ra rc d have 2: "cacheKey ?a \<noteq> cacheKey ?c" by blast
  from k 1 ra rc 2 show ?thesis by blast
qed

subsection \<open>The caching fetch (FilterURL.fetch)\<close>

lemma pick_fresh_None: "pick_fresh fs names = Some name \<Longrightarrow> fs name = None"
  by (induction names) (auto split: if_splits)

lemma TempFile_ok:
  "ioutil_TempFile env dir pat w = (Inr tmp, w1) \<Longrightarrow>
   files w tmp = None \<and> w1 = w\<lparr>files := (files w)(tmp \<mapsto> [])\<rparr>"
  by (auto simp: ioutil_TempFile_def dest: pick_fresh_None split: option.splits)

lemma TempFile_fail: "ioutil_TempFile env dir pat w = (Inl e, w1) \<Longrightarrow> w1 = w"
  by (auto simp: ioutil_TempFile_def split: option.splits)

lemma download_world:
  "download env u w = (r, w2) \<Longrightarrow> w2 = w\<lparr>requests := requests w @ [u]\<rparr>"
  by (auto simp: download_def Let_def split: sum.splits option.splits)

lemma io_Copy_world:
  "io_Copy env dst rc w = (r, w3) \<Longrightarrow> \<exists>c. w3 = w\<lparr>files := (files w)(dst \<mapsto> c)\<rparr>"
  by (auto simp: io_Copy_def split: prod.splits option.splits if_splits)

lemma fetch_caching:
  assumes "cacheDir_of env f = Some dir"
    and "url_Parse env (expandGUID (strings_ToLower env) (url_URL f) (url_GUID f)) = Inr loc"
    and "os_MkdirAll env dir = None"
  shows "fetch env f w =
         tryCache env (expandGUID (strings_ToLower env) (url_URL f) (url_GUID f)) dir
           (filepath_Join env dir (cacheKey loc)) False w"
  using assms by (simp add: fetch_def cacheKey_def Let_def)

lemma os_Open_miss: "os_Open env p w = Inl e \<Longrightarrow> open_fault env p = None \<Longrightarrow> files w p = None"
  by (auto simp: os_Open_def split: option.splits)

lemma download_files: "download env u w = (r, w2) \<Longrightarrow> files w2 = files w"
  by (drule download_world) simp

lemma io_Copy_files:
  "io_Copy env dst rc w = (r, w3) \<Longrightarrow> \<exists>c. files w3 = (files w)(dst \<mapsto> c)"
  by (drule io_Copy_world) auto

lemma remove_fresh:
  assumes "files w tmp = None" and "files w' = (files w)(tmp \<mapsto> c)"
  shows "files (os_Remove tmp w') = files w"
  using assms by (auto simp: os_Remove_def fun_eq_iff)

text \<open>
  Claim C2: in a caching mode (a cache directory is chosen and created, the address
  parses, the cache file cannot be opened, the temporary file is created), if the
  download fails, or the copy of the body into the temporary file fails (the body
  breaks off, or the write fails), then \<^verbatim>\<open>fetch\<close> returns that error, the temporary
  file is removed, and the files are exactly those before the call; no file stands
  at the cache path (unless an unreadable one stood there before).
\<close>

theorem failed_download_leaves_no_cache_entry:
  assumes "u = expandGUID (strings_ToLower env) (url_URL f) (url_GUID f)"
    and "cacheDir_of env f = Some dir"
    and "url_Parse env u = Inr loc"
    and "os_MkdirAll env dir = None"
    and "p = filepath_Join env dir (cacheKey loc)"
    and "os_Open env p w = Inl e0"
    and "ioutil_TempFile env dir ''temp'' w = (Inr tmp, w1)"
    and "download env u w1 = (Inl e, w2) \<or>
         (\<exists>rc w3. download env u w1 = (Inr rc, w2) \<and> io_Copy env tmp rc w2 = (Some e, w3))"
  shows "\<exists>w'. fetch env f w = (Inl e, w') \<and> files w' tmp = None \<and> files w' = files w \<and>
           (open_fault env p = None \<longrightarrow> files w' p = None)"
proof -
  from assms(1-5) have fe: "fetch env f w = tryCache env u dir p False w"
    using fetch_caching[of env f dir loc w] by simp
  from TempFile_ok[OF assms(7)] have fresh: "files w tmp = None"
    and w1: "files w1 = (files w)(tmp \<mapsto> [])" by simp_all
  from assms(8) show ?thesis
  proof
    assume d: "download env u w1 = (Inl e, w2)"
    from download_files[OF d] w1 have w2: "files w2 = (files w)(tmp \<mapsto> [])" by simp
    from fe assms(6,7) d have r: "fetch env f w = (Inl e, os_Remove tmp w2)" by simp
    from remove_fresh[OF fresh w2] have "files (os_Remove tmp w2) = files w" .
    with r fresh os_Open_miss[OF assms(6)] show ?thesis by simp
  next
    assume "\<exists>rc w3. download env u w1 = (Inr rc, w2) \<and> io_Copy env tmp rc w2 = (Some e, w3)"
    then obtain rc w3 where d: "download env u w1 = (Inr rc, w2)"
      and c: "io_Copy env tmp rc w2 = (Some e, w3)" by blast
    from download_files[OF d] w1 have w2: "files w2 = (files w)(tmp \<mapsto> [])" by simp
    from io_Copy_files[OF c] w2 obtain content where
      w3: "files w3 = (files w)(tmp \<mapsto> content)" by auto
    from fe assms(6,7) d c have r: "fetch env f w = (Inl e, os_Remove tmp w3)" by simp
    from remove_fresh[OF fresh w3] have "files (os_Remove tmp w3) = files w" .
    with r fresh os_Open_miss[OF assms(6)] show ?thesis by simp
  qed
qed

text \<open>
  The theorem on a download whose body breaks off after three bytes: the error is
  returned, and neither the temporary file nor the cache file exists afterwards.
\<close>

theorem failed_download_leaves_no_cache_entry_witness:
  "fst (fetch demo_env_cut (demo_url CacheTemp) empty_world) = Inl (Err ''unexpected EOF'') \<and>
   files (snd (fetch demo_env_cut (demo_url CacheTemp) empty_world)) ''/tmp/roblox-fetch/temp1'' = None \<and>
   files (snd (fetch demo_env_cut (demo_url CacheTemp) empty_world))
     ''/tmp/roblox-fetch/setup.rbxcdn.com%2Fversion-abc-API-Dump.json'' = None"
proof -
  let ?u = "''https://setup.rbxcdn.com/version-abc-API-Dump.json''"
  let ?dir = "''/tmp/roblox-fetch''"
  let ?loc = "\<lparr>Scheme = ''https'', Host = ''setup.rbxcdn.com'',
      Path = ''/version-abc-API-Dump.json'', RawQuery = [], Fragment = []\<rparr>"
  let ?p = "''/tmp/roblox-fetch/setup.rbxcdn.com%2Fversion-abc-API-Dump.json''"
  let ?tmp = "''/tmp/roblox-fetch/temp1''"
  let ?w1 = "snd (ioutil_TempFile demo_env_cut ?dir ''temp'' empty_world)"
  let ?w2 = "snd (download demo_env_cut ?u ?w1)"
  let ?w3 = "snd (io_Copy demo_env_cut ?tmp (demo_body ''hel'' (Err ''unexpected EOF'')) ?w2)"
  have u: "?u = expandGUID (strings_ToLower demo_env_cut) (url_URL (demo_url CacheTemp))
      (url_GUID (demo_url CacheTemp))"
    by code_simp
  have dir: "cacheDir_of demo_env_cut (demo_url CacheTemp) = Some ?dir" by code_simp
  have loc: "url_Parse demo_env_cut ?u = Inr ?loc" by code_simp
  have mk: "os_MkdirAll demo_env_cut ?dir = None" by code_simp
  have p: "?p = filepath_Join demo_env_cut ?dir (cacheKey ?loc)" by code_simp
  have op: "os_Open demo_env_cut ?p empty_world = Inl (Err ''file does not exist'')"
    by code_simp
  have "fst (ioutil_TempFile demo_env_cut ?dir ''temp'' empty_world) = Inr ?tmp" by code_simp
  then have tf: "ioutil_TempFile demo_env_cut ?dir ''temp'' empty_world = (Inr ?tmp, ?w1)"
    by (simp add: prod_eq_iff)
  have "fst (download demo_env_cut ?u ?w1) = Inr (demo_body ''hel'' (Err ''unexpected EOF''))"
    by (simp add: download_def demo_env_cut_def demo_env_def hasStatusError_def Let_def)
  then have dl: "download demo_env_cut ?u ?w1 =
      (Inr (demo_body ''hel'' (Err ''unexpected EOF'')), ?w2)"
    by (simp add: prod_eq_iff)
  have "fst (io_Copy demo_env_cut ?tmp (demo_body ''hel'' (Err ''unexpected EOF'')) ?w2)
      = Some (Err ''unexpected EOF'')"
    by (simp add: io_Copy_def ioutil_ReadAll_def demo_body_def demo_env_cut_def demo_env_def)
  then have cp: "io_Copy demo_env_cut ?tmp (demo_body ''hel'' (Err ''unexpected EOF'')) ?w2
      = (Some (Err ''unexpected EOF''), ?w3)"
    by (simp add: prod_eq_iff)
  have nf: "open_fault demo_env_cut ?p = None" by code_simp
  from dl cp have fail: "download demo_env_cut ?u ?w1 = (Inl (Err ''unexpected EOF''), ?w2) \<or>
      (\<exists>rc w3. download demo_env_cut ?u ?w1 = (Inr rc, ?w2) \<and>
         io_Copy demo_env_cut ?tmp rc ?w2 = (Some (Err ''unexpected EOF''), w3))"
    by blast
  from failed_download_leaves_no_cache_entry[OF u dir loc mk p op tf fail] nf
  show ?thesis by auto
qed

lemma cacheDir_of_None:
  "cacheDir_of env f = None \<longleftrightarrow>
   url_CacheMode f \<noteq> CacheTemp \<and> url_CacheMode f \<noteq> CachePerm \<and> url_CacheMode f \<noteq> CacheCustom"
  by (simp add: cacheDir_of_def)

lemma fetch_direct:
  "cacheDir_of env f = None \<Longrightarrow>
   url_Parse env (expandGUID (strings_ToLower env) (url_URL f) (url_GUID f)) = Inr loc \<Longrightarrow>
   fetch env f w = download env (expandGUID (strings_ToLower env) (url_URL f) (url_GUID f)) w"
  by (simp add: fetch_def Let_def)

lemma fetch_mkdir_fail:
  "cacheDir_of env f = Some dir \<Longrightarrow>
   url_Parse env (expandGUID (strings_ToLower env) (url_URL f) (url_GUID f)) = Inr loc \<Longrightarrow>
   os_MkdirAll env dir = Some e \<Longrightarrow> fetch env f w = (Inl e, w)"
  by (simp add: fetch_def Let_def)

lemma io_Copy_ok_content:
  "io_Copy env dst rc w = (None, w3) \<Longrightarrow> \<exists>c. files w3 dst = Some c"
  by (drule io_Copy_files) auto

lemma rename_fail: "rename_fault env = Some e \<Longrightarrow> os_Rename env a b w = (Some e, w)"
  by (simp add: os_Rename_def)

text \<open>
  Claim C3, as stated, says that under a caching mode every failing cache step
  fails the fetch, and that a direct fetch happens only in the mode none.  When
  the temporary file cannot be created, \<^verbatim>\<open>fetch\<close> falls through to the label
  \<^verbatim>\<open>direct\<close> and returns the body fetched from the origin; when the rename fails,
  it opens the temporary file as the result ("Rename failed. Data is still in temp
  file, so we'll reuse that.").  Neither fails.
\<close>

theorem cache_failure_without_error:
  "fst (fetch (demo_env\<lparr>tempfile_fault := Some (Err ''permission denied'')\<rparr>)
          (demo_url CacheTemp) empty_world) = Inr (demo_body ''hello'' EOF) \<and>
   requests (snd (fetch (demo_env\<lparr>tempfile_fault := Some (Err ''permission denied'')\<rparr>)
          (demo_url CacheTemp) empty_world))
     = [''https://setup.rbxcdn.com/version-abc-API-Dump.json''] \<and>
   fst (fetch (demo_env\<lparr>rename_fault := Some (Err ''invalid cross-device link'')\<rparr>)
          (demo_url CacheTemp) empty_world) = Inr (os_File ''hello'')"
  by code_simp

text \<open>
  Claim C3, amended: the fetch is direct (the download, nothing else) when the
  mode is none of temp, perm and custom.  Under a caching mode, a failure to
  create the cache directory fails the fetch with that error, before any request;
  after a cache miss, a failure to write the body to the temporary file and a
  failure to sync it fail the fetch with that error, the temporary file being
  removed; a failure to create the temporary file does not fail the fetch, which
  is then the direct download; a failure to rename does not fail it either: the
  temporary file, complete, is opened as the result.
\<close>

theorem cache_step_failures:
  assumes "u = expandGUID (strings_ToLower env) (url_URL f) (url_GUID f)"
    and "url_Parse env u = Inr loc"
    and "p = filepath_Join env dir (cacheKey loc)"
  shows
   "(cacheDir_of env f = None \<longleftrightarrow>
       url_CacheMode f \<noteq> CacheTemp \<and> url_CacheMode f \<noteq> CachePerm \<and> url_CacheMode f \<noteq> CacheCustom) \<and>
    (cacheDir_of env f = None \<longrightarrow> fetch env f w = download env u w) \<and>
    (cacheDir_of env f = Some dir \<longrightarrow>
       (os_MkdirAll env dir = Some e \<longrightarrow> fetch env f w = (Inl e, w)) \<and>
       (os_MkdirAll env dir = None \<and> os_Open env p w = Inl e0 \<longrightarrow>
          (ioutil_TempFile env dir ''temp'' w = (Inl e, w1) \<longrightarrow> fetch env f w = download env u w) \<and>
          (ioutil_TempFile env dir ''temp'' w = (Inr tmp, w1) \<and> download env u w1 = (Inr rc, w2) \<longrightarrow>
             (io_Copy env tmp rc w2 = (Some e, w3) \<longrightarrow>
                fetch env f w = (Inl e, os_Remove tmp w3)) \<and>
             (io_Copy env tmp rc w2 = (None, w3) \<and> sync_fault env = Some e \<longrightarrow>
                fetch env f w = (Inl e, os_Remove tmp w3)) \<and>
             (io_Copy env tmp rc w2 = (None, w3) \<and> sync_fault env = None \<and>
              rename_fault env = Some e \<and> open_fault env tmp = None \<longrightarrow>
                (\<exists>content. files w3 tmp = Some content \<and>
                   fetch env f w = (Inr (os_File content), w3))))))"
proof (intro conjI impI; (elim conjE)?)
  show "cacheDir_of env f = None \<longleftrightarrow>
       url_CacheMode f \<noteq> CacheTemp \<and> url_CacheMode f \<noteq> CachePerm \<and> url_CacheMode f \<noteq> CacheCustom"
    by (rule cacheDir_of_None)
  show "fetch env f w = download env u w" if "cacheDir_of env f = None"
    using that assms(1,2) fetch_direct[of env f loc w] by simp
  show "fetch env f w = (Inl e, w)" if "cacheDir_of env f = Some dir" "os_MkdirAll env dir = Some e"
    using that assms(1,2) fetch_mkdir_fail[of env f dir loc e w] by simp
  have fe: "fetch env f w = tryCache env u dir p False w"
    if "cacheDir_of env f = Some dir" "os_MkdirAll env dir = None"
    using that assms fetch_caching[of env f dir loc w] by simp
  show "fetch env f w = download env u w"
    if "cacheDir_of env f = Some dir" "os_MkdirAll env dir = None" "os_Open env p w = Inl e0"
       "ioutil_TempFile env dir ''temp'' w = (Inl e, w1)"
    using fe[OF that(1,2)] that(3,4) TempFile_fail[OF that(4)] by simp
  show "fetch env f w = (Inl e, os_Remove tmp w3)"
    if "cacheDir_of env f = Some dir" "os_MkdirAll env dir = None" "os_Open env p w = Inl e0"
       "ioutil_TempFile env dir ''temp'' w = (Inr tmp, w1)" "download env u w1 = (Inr rc, w2)"
       "io_Copy env tmp rc w2 = (Some e, w3)"
    using fe[OF that(1,2)] that(3-6) by simp
  show "fetch env f w = (Inl e, os_Remove tmp w3)"
    if "cacheDir_of env f = Some dir" "os_MkdirAll env dir = None" "os_Open env p w = Inl e0"
       "ioutil_TempFile env dir ''temp'' w = (Inr tmp, w1)" "download env u w1 = (Inr rc, w2)"
       "io_Copy env tmp rc w2 = (None, w3)" "sync_fault env = Some e"
    using fe[OF that(1,2)] that(3-7) by simp
  show "\<exists>content. files w3 tmp = Some content \<and> fetch env f w = (Inr (os_File content), w3)"
    if "cacheDir_of env f = Some dir" "os_MkdirAll env dir = None" "os_Open env p w = Inl e0"
       "ioutil_TempFile env dir ''temp'' w = (Inr tmp, w1)" "download env u w1 = (Inr rc, w2)"
       "io_Copy env tmp rc w2 = (None, w3)" "sync_fault env = None"
       "rename_fault env = Some e" "open_fault env tmp = None"
  proof -
    from io_Copy_ok_content[OF that(6)] obtain content where c: "files w3 tmp = Some content"
      by blast
    with that(9) have "os_Open env tmp w3 = Inr (os_File content)" by (simp add: os_Open_def)
    with fe[OF that(1,2)] that(3-8) rename_fail[OF that(8), of tmp p w3]
    have "fetch env f w = (Inr (os_File content), w3)" by simp
    with c show ?thesis by blast
  qed
qed

text \<open>
  The theorem with a cache directory that cannot be created, with a temporary file
  that cannot be synced, and without caching.
\<close>

theorem cache_step_failures_witness:
  "fetch demo_env_mkdir (demo_url CacheTemp) empty_world
     = (Inl (Err ''read-only file system''), empty_world) \<and>
   fst (fetch demo_env_sync (demo_url CacheTemp) empty_world) = Inl (Err ''input/output error'') \<and>
   files (snd (fetch demo_env_sync (demo_url CacheTemp) empty_world)) ''/tmp/roblox-fetch/temp1''
     = None \<and>
   fetch demo_env (demo_url CacheNone) empty_world
     = download demo_env ''https://setup.rbxcdn.com/version-abc-API-Dump.json'' empty_world"
proof -
  let ?u = "''https://setup.rbxcdn.com/version-abc-API-Dump.json''"
  let ?dir = "''/tmp/roblox-fetch''"
  let ?loc = "\<lparr>Scheme = ''https'', Host = ''setup.rbxcdn.com'',
      Path = ''/version-abc-API-Dump.json'', RawQuery = [], Fragment = []\<rparr>"
  let ?p = "''/tmp/roblox-fetch/setup.rbxcdn.com%2Fversion-abc-API-Dump.json''"
  let ?tmp = "''/tmp/roblox-fetch/temp1''"
  txt \<open>The directory cannot be created.\<close>
  have u1: "?u = expandGUID (strings_ToLower demo_env_mkdir) (url_URL (demo_url CacheTemp))
      (url_GUID (demo_url CacheTemp))" by code_simp
  have l1: "url_Parse demo_env_mkdir ?u = Inr ?loc" by code_simp
  have p1: "?p = filepath_Join demo_env_mkdir ?dir (cacheKey ?loc)" by code_simp
  have d1: "cacheDir_of demo_env_mkdir (demo_url CacheTemp) = Some ?dir" by code_simp
  have m1: "os_MkdirAll demo_env_mkdir ?dir = Some (Err ''read-only file system'')" by code_simp
  from cache_step_failures[where w = empty_world and e = "Err ''read-only file system''",
      OF u1 l1 p1] d1 m1
  have A: "fetch demo_env_mkdir (demo_url CacheTemp) empty_world
     = (Inl (Err ''read-only file system''), empty_world)" by blast
  txt \<open>The temporary file cannot be synced.\<close>
  let ?w1 = "snd (ioutil_TempFile demo_env_sync ?dir ''temp'' empty_world)"
  let ?w2 = "snd (download demo_env_sync ?u ?w1)"
  let ?w3 = "snd (io_Copy demo_env_sync ?tmp (demo_body ''hello'' EOF) ?w2)"
  have u2: "?u = expandGUID (strings_ToLower demo_env_sync) (url_URL (demo_url CacheTemp))
      (url_GUID (demo_url CacheTemp))" by code_simp
  have l2: "url_Parse demo_env_sync ?u = Inr ?loc" by code_simp
  have p2: "?p = filepath_Join demo_env_sync ?dir (cacheKey ?loc)" by code_simp
  have d2: "cacheDir_of demo_env_sync (demo_url CacheTemp) = Some ?dir" by code_simp
  have m2: "os_MkdirAll demo_env_sync ?dir = None" by code_simp
  have o2: "os_Open demo_env_sync ?p empty_world = Inl (Err ''file does not exist'')" by code_simp
  have "fst (ioutil_TempFile demo_env_sync ?dir ''temp'' empty_world) = Inr ?tmp" by code_simp
  then have t2: "ioutil_TempFile demo_env_sync ?dir ''temp'' empty_world = (Inr ?tmp, ?w1)"
    by (simp add: prod_eq_iff)
  have "fst (download demo_env_sync ?u ?w1) = Inr (demo_body ''hello'' EOF)"
    by (simp add: download_def demo_env_sync_def demo_env_def hasStatusError_def Let_def)
  then have dl: "download demo_env_sync ?u ?w1 = (Inr (demo_body ''hello'' EOF), ?w2)"
    by (simp add: prod_eq_iff)
  have "fst (io_Copy demo_env_sync ?tmp (demo_body ''hello'' EOF) ?w2) = None"
    by (simp add: io_Copy_def ioutil_ReadAll_def demo_body_def demo_env_sync_def demo_env_def)
  then have cp: "io_Copy demo_env_sync ?tmp (demo_body ''hello'' EOF) ?w2 = (None, ?w3)"
    by (simp add: prod_eq_iff)
  have sf: "sync_fault demo_env_sync = Some (Err ''input/output error'')"
    by (simp add: demo_env_sync_def)
  from cache_step_failures[where w = empty_world and e = "Err ''input/output error''"
      and ?e0.0 = "Err ''file does not exist''" and ?w1.0 = ?w1 and tmp = ?tmp
      and rc = "demo_body ''hello'' EOF" and ?w2.0 = ?w2 and ?w3.0 = ?w3, OF u2 l2 p2]
    d2 m2 o2 t2 dl cp sf
  have B: "fetch demo_env_sync (demo_url CacheTemp) empty_world
      = (Inl (Err ''input/output error''), os_Remove ?tmp ?w3)" by blast
  have B2: "files (os_Remove ?tmp ?w3) ?tmp = None" by (simp add: os_Remove_def)
  txt \<open>No caching.\<close>
  have u3: "?u = expandGUID (strings_ToLower demo_env) (url_URL (demo_url CacheNone))
      (url_GUID (demo_url CacheNone))" by code_simp
  have l3: "url_Parse demo_env ?u = Inr ?loc" by code_simp
  have p3: "?p = filepath_Join demo_env ?dir (cacheKey ?loc)" by code_simp
  have d3: "cacheDir_of demo_env (demo_url CacheNone) = None" by code_simp
  from cache_step_failures[where w = empty_world, OF u3 l3 p3] d3
  have C: "fetch demo_env (demo_url CacheNone) empty_world = download demo_env ?u empty_world"
    by blast
  from A B B2 C show ?thesis by simp
qed

end
